theory Spec2Isabelle
  imports Complex_Main
begin

section \<open>Data model of dragonfly's Room2D\<close>

text \<open>
  The development embeds the parts of \<^verbatim>\<open>dragonfly/room2d.py\<close> that deal with the
  per-segment arrays of a Room2D, with adjacency solving and with the control flow of the
  roof volume builder. Python floats are modelled as real numbers. Exceptions are values of
  the type \<open>error\<close>; a method that mutates its object returns the updated object, also
  when it raises, since a Python mutation made before a raise persists.
\<close>

datatype error = AssertionError | IndexError | ValueError | TypeError

text \<open>Sequencing of two steps that may raise: the second runs on the value of the first.\<close>

definition ebind :: "error + 'a \<Rightarrow> ('a \<Rightarrow> error + 'b) \<Rightarrow> error + 'b" where
  "ebind m f = (case m of Inl e \<Rightarrow> Inl e | Inr x \<Rightarrow> f x)"

type_synonym point2 = "real \<times> real"
type_synonym point3 = "real \<times> real \<times> real"
type_synonym segment2 = "point2 \<times> point2"
type_synonym segment3 = "point3 \<times> point3"

text \<open>
  Boundary conditions of honeybee. A \<open>Surface\<close> carries the pair
  \<^verbatim>\<open>boundary_condition_objects\<close>: the identifier of the adjacent face and the identifier
  of the adjacent room.
\<close>

datatype bc = Outdoors | Ground | Surface string string | Adiabatic

fun is_Surface :: "bc \<Rightarrow> bool" where
  "is_Surface (Surface f r) = True"
| "is_Surface b = False"

fun accepts_windows :: "bc \<Rightarrow> bool" where
  "accepts_windows Outdoors = True"
| "accepts_windows (Surface f r) = True"
| "accepts_windows b = False"

text \<open>
  The floor plate, a ladybug-geometry Face3D: the vertices of the outer ring, the vertices
  of each hole (the empty list stands for \<^verbatim>\<open>holes is None\<close>) and the z component of the
  normal of its plane, the only part of the plane the modelled code reads.
\<close>

record Face3D =
  boundary :: "point3 list"
  holes :: "point3 list list"
  normal_z :: real

text \<open>
  The attributes of a Room2D that the modelled methods read or write, under the names of
  the private attributes of the class. \<open>air_boundaries\<close> is \<open>None\<close> until it is first used.
\<close>

record ('wp, 'sp) Room2D =
  ident :: string
  floor_geometry :: Face3D
  segment_count :: nat
  floor_to_ceiling_height :: real
  boundary_conditions :: "bc list"
  window_parameters :: "'wp option list"
  shading_parameters :: "'sp option list"
  air_boundaries :: "bool list option"
  is_ground_contact :: bool
  is_top_exposed :: bool

text \<open>
  The window parameter classes live in \<^verbatim>\<open>dragonfly/windowparameter.py\<close>, which is not
  among the source files at hand. The three operations that Room2D calls on them are taken
  as parameters: the window area a parameter yields on a segment for a given wall height,
  the flip of a parameter along a segment of a given length, and the test for the
  subclasses of \<^verbatim>\<open>_AsymmetricBase\<close>. Python's \<^verbatim>\<open>==\<close> on window parameters is equality of
  the values.
\<close>

record 'wp window_lib =
  area_from_segment :: "'wp \<Rightarrow> segment3 \<Rightarrow> real \<Rightarrow> real"
  flip :: "'wp \<Rightarrow> real \<Rightarrow> 'wp"
  is_asymmetric :: "'wp \<Rightarrow> bool"

text \<open>\<^verbatim>\<open>wp.flip(length) if isinstance(wp, _AsymmetricBase) else wp\<close>, for a parameter or None.\<close>

definition flip_if_asymmetric :: "'wp window_lib \<Rightarrow> 'wp option \<Rightarrow> real \<Rightarrow> 'wp option" where
  "flip_if_asymmetric W wp l =
     (case wp of
        Some w \<Rightarrow> if is_asymmetric W w then Some (flip W w l) else Some w
      | None \<Rightarrow> None)"

text \<open>\<^verbatim>\<open>wp.area_from_segment(seg, height) if wp is not None else 0\<close>.\<close>

definition area_or_zero :: "'wp window_lib \<Rightarrow> 'wp option \<Rightarrow> segment3 \<Rightarrow> real \<Rightarrow> real" where
  "area_or_zero W wp seg h = (case wp of Some w \<Rightarrow> area_from_segment W w seg h | None \<Rightarrow> 0)"

definition asymmetric_opt :: "'wp window_lib \<Rightarrow> 'wp option \<Rightarrow> bool" where
  "asymmetric_opt W wp = (case wp of Some w \<Rightarrow> is_asymmetric W w | None \<Rightarrow> False)"

text \<open>
  The geometry library (ladybug-geometry) is an external dependency. The operations of it
  that the modelled methods call are parameters as well: the orientation test of a
  Polygon2D, the equivalence of two points within a tolerance, the bounding rectangle test
  of two polygons with a tolerance as slack, and the distance from a 2D segment to a point,
  which may raise.
\<close>

record geometry_lib =
  is_clockwise :: "point2 list \<Rightarrow> bool"
  is_equivalent :: "point3 \<Rightarrow> point3 \<Rightarrow> real \<Rightarrow> bool"
  overlapping_bounding_rect :: "point2 list \<Rightarrow> point2 list \<Rightarrow> real \<Rightarrow> bool"
  distance_to_point :: "segment2 \<Rightarrow> point2 \<Rightarrow> error + real"

section \<open>Geometry read from the floor plate\<close>

text \<open>The closed ring of segments of a vertex list: each vertex to the next, the last to the first.\<close>

definition ring_segments :: "'a list \<Rightarrow> ('a \<times> 'a) list" where
  "ring_segments ps = zip ps (rotate1 ps)"

definition to_2d :: "point3 \<Rightarrow> point2" where
  "to_2d p = (fst p, fst (snd p))"

definition pz :: "point3 \<Rightarrow> real" where
  "pz p = snd (snd p)"

definition seg_length :: "segment3 \<Rightarrow> real" where
  "seg_length s =
     (case s of ((x1, y1, z1), (x2, y2, z2)) \<Rightarrow>
        sqrt ((x2 - x1)\<^sup>2 + (y2 - y1)\<^sup>2 + (z2 - z1)\<^sup>2))"

definition has_holes :: "Face3D \<Rightarrow> bool" where
  "has_holes f = (holes f \<noteq> [])"

definition boundary_segments :: "Face3D \<Rightarrow> segment3 list" where
  "boundary_segments f = ring_segments (boundary f)"

definition hole_segments :: "Face3D \<Rightarrow> segment3 list list" where
  "hole_segments f = map ring_segments (holes f)"

text \<open>\<^verbatim>\<open>Room2D.floor_segments\<close>: the boundary segments followed by the segments of each hole.\<close>

definition floor_segments :: "('wp, 'sp) Room2D \<Rightarrow> segment3 list" where
  "floor_segments r =
     boundary_segments (floor_geometry r) @ concat (hole_segments (floor_geometry r))"

definition floor_segments_2d :: "('wp, 'sp) Room2D \<Rightarrow> segment2 list" where
  "floor_segments_2d r = map (\<lambda>(p, q). (to_2d p, to_2d q)) (floor_segments r)"

text \<open>\<^verbatim>\<open>floor_height\<close> is the z of the first vertex; \<^verbatim>\<open>ceiling_height\<close> adds the room height.\<close>

definition floor_height :: "('wp, 'sp) Room2D \<Rightarrow> real" where
  "floor_height r = pz (hd (boundary (floor_geometry r)))"

definition ceiling_height :: "('wp, 'sp) Room2D \<Rightarrow> real" where
  "ceiling_height r = floor_height r + floor_to_ceiling_height r"

text \<open>\<^verbatim>\<open>__len__\<close> returns the stored segment count.\<close>

definition len :: "('wp, 'sp) Room2D \<Rightarrow> nat" where
  "len r = segment_count r"

text \<open>
  The Face3D constructor of ladybug-geometry, called with a plane, refuses a ring of fewer
  than three vertices with an AssertionError. With \<^verbatim>\<open>enforce_right_hand\<close>, which is its
  default, it reverses a boundary that is clockwise in the coordinates of the plane; the
  holes are kept as given. The planes in question are horizontal; seen from a plane that
  faces down the \<open>y\<close> axis is mirrored.
\<close>

definition plane_xy :: "real \<Rightarrow> point3 list \<Rightarrow> point2 list" where
  "plane_xy nz bnd = map (\<lambda>(x, y, z). (x, if nz \<ge> 0 then y else - y)) bnd"

definition Face3D_init ::
  "geometry_lib \<Rightarrow> bool \<Rightarrow> point3 list \<Rightarrow> real \<Rightarrow> point3 list list \<Rightarrow> error + Face3D" where
  "Face3D_init G enforce_right_hand bnd nz hls =
     (if length bnd < 3 \<or> (\<exists>h \<in> set hls. length h < 3) then Inl AssertionError
      else Inr \<lparr>boundary = (if enforce_right_hand \<and> is_clockwise G (plane_xy nz bnd)
                             then rev bnd else bnd),
                holes = hls, normal_z = nz\<rparr>)"

text \<open>
  \<^verbatim>\<open>Face3D.flip\<close>: the face with the boundary reversed and the opposite normal; the
  holes are kept as given.
\<close>

definition face_flip :: "Face3D \<Rightarrow> Face3D" where
  "face_flip f = \<lparr>boundary = rev (boundary f), holes = holes f, normal_z = - normal_z f\<rparr>"

section \<open>Construction and the setters of the per-segment arrays\<close>

text \<open>\<^verbatim>\<open>_check_wall_assigned_object\<close>: the input must have one item per segment.\<close>

definition check_wall_assigned_object :: "('wp, 'sp) Room2D \<Rightarrow> 'a list \<Rightarrow> error + 'a list" where
  "check_wall_assigned_object r v = (if length v = len r then Inr v else Inl AssertionError)"

text \<open>The setter of \<^verbatim>\<open>floor_to_ceiling_height\<close>: honeybee's \<^verbatim>\<open>float_positive\<close>, then not zero.\<close>

definition set_floor_to_ceiling_height ::
  "real \<Rightarrow> ('wp, 'sp) Room2D \<Rightarrow> error + ('wp, 'sp) Room2D" where
  "set_floor_to_ceiling_height v r =
     (if \<not> 0 \<le> v then Inl AssertionError
      else if v = 0 then Inl AssertionError
      else Inr (r\<lparr>floor_to_ceiling_height := v\<rparr>))"


definition set_window_parameters ::
  "'wp option list option \<Rightarrow> ('wp, 'sp) Room2D \<Rightarrow> error + ('wp, 'sp) Room2D" where
  "set_window_parameters value r =
     (case value of
        Some v0 \<Rightarrow>
          ebind (check_wall_assigned_object r v0) (\<lambda>v.
            if \<exists>(w, b) \<in> set (zip v (boundary_conditions r)). w \<noteq> None \<and> \<not> accepts_windows b
            then Inl AssertionError
            else Inr (r\<lparr>window_parameters := v\<rparr>))
      | None \<Rightarrow> Inr (r\<lparr>window_parameters := replicate (len r) None\<rparr>))"

definition set_shading_parameters ::
  "'sp option list option \<Rightarrow> ('wp, 'sp) Room2D \<Rightarrow> error + ('wp, 'sp) Room2D" where
  "set_shading_parameters value r =
     (case value of
        Some v0 \<Rightarrow>
          ebind (check_wall_assigned_object r v0) (\<lambda>v. Inr (r\<lparr>shading_parameters := v\<rparr>))
      | None \<Rightarrow> Inr (r\<lparr>shading_parameters := replicate (len r) None\<rparr>))"

text \<open>
  The getter of \<^verbatim>\<open>air_boundaries\<close> fills the attribute with one \<open>False\<close> per segment
  when it is still \<open>None\<close>; it returns the tuple and leaves the room with the filled attribute.
\<close>

definition get_air_boundaries :: "('wp, 'sp) Room2D \<Rightarrow> bool list \<times> ('wp, 'sp) Room2D" where
  "get_air_boundaries r =
     (case air_boundaries r of
        None \<Rightarrow> (replicate (len r) False, r\<lparr>air_boundaries := Some (replicate (len r) False)\<rparr>)
      | Some v \<Rightarrow> (v, r))"


text \<open>
  \<^verbatim>\<open>_flip_wall_assigned_objects\<close>: the items of the outer ring, asymmetric window
  parameters flipped along their segment of the original geometry, in reversed order,
  followed by the items of the holes as they are. An index past the end of an input list
  raises IndexError.
\<close>

definition flip_wall_assigned_objects ::
  "'wp window_lib \<Rightarrow> Face3D \<Rightarrow> bc list \<Rightarrow> 'wp option list \<Rightarrow> 'sp option list \<Rightarrow>
     error + (bc list \<times> 'wp option list \<times> 'sp option list)" where
  "flip_wall_assigned_objects W original_geo bcs win_pars shd_pars =
     (let segs = boundary_segments original_geo; n = length segs in
      if n > length bcs \<or> n > length win_pars \<or> n > length shd_pars then Inl IndexError
      else
        let new_bcs = rev (take n bcs);
            new_win_pars = rev (map (\<lambda>(seg, win_par). flip_if_asymmetric W win_par (seg_length seg))
                                  (zip segs win_pars));
            new_shd_pars = rev (take n shd_pars);
            bound_len = length (boundary original_geo)
        in if has_holes original_geo
           then Inr (new_bcs @ drop bound_len bcs, new_win_pars @ drop bound_len win_pars,
                     new_shd_pars @ drop bound_len shd_pars)
           else Inr (new_bcs, new_win_pars, new_shd_pars))"

definition default_boundary_condition :: "('wp, 'sp) Room2D \<Rightarrow> bc" where
  "default_boundary_condition r = (if ceiling_height r > 0 then Outdoors else Ground)"

definition horizontal_within :: "Face3D \<Rightarrow> real \<Rightarrow> bool" where
  "horizontal_within f tolerance =
     (let z_vals = map pz (boundary f @ concat (holes f))
      in Max (set z_vals) - Min (set z_vals) \<le> tolerance)"

text \<open>
  The constructor hands the identifier to \<^verbatim>\<open>_BaseGeometry.__init__\<close>, which is not in
  room2d.py. Modelled from the docstring of the class, by which the identifier must be
  less than 100 characters and not contain any spaces or special characters, and from
  the check of honeybee that the base class calls: a failed assertion for an empty
  identifier, for one of more than 100 characters and for a character other than a
  letter, a digit, a dot, a hyphen or an underscore.
\<close>

definition legal_characters :: string where
  "legal_characters =
     ''.-_0123456789ABCDEFGHIJKLMNOPQRSTUVWXYZabcdefghijklmnopqrstuvwxyz''"

definition valid_identifier :: "string \<Rightarrow> bool" where
  "valid_identifier s =
     (list_all (\<lambda>c. c \<in> set legal_characters) s \<and> 0 < length s \<and> length s \<le> 100)"

text \<open>The three blocks of the constructor that fill the per-segment arrays.\<close>

definition init_geometry :: "string \<Rightarrow> Face3D \<Rightarrow> ('wp, 'sp) Room2D" where
  "init_geometry identifier0 fg =
     (let g0 = \<lparr>ident = identifier0, floor_geometry = fg, segment_count = 0,
                floor_to_ceiling_height = 0, boundary_conditions = [],
                window_parameters = [], shading_parameters = [], air_boundaries = None,
                is_ground_contact = False, is_top_exposed = False\<rparr>
      in g0\<lparr>segment_count := length (floor_segments g0)\<rparr>)"

definition init_boundary_conditions ::
  "bc list option \<Rightarrow> ('wp, 'sp) Room2D \<Rightarrow> error + ('wp, 'sp) Room2D" where
  "init_boundary_conditions bcs_in r =
     (case bcs_in of
        None \<Rightarrow> Inr (r\<lparr>boundary_conditions := replicate (len r) (default_boundary_condition r)\<rparr>)
      | Some v \<Rightarrow> ebind (check_wall_assigned_object r v) (\<lambda>value.
                   Inr (r\<lparr>boundary_conditions := value\<rparr>)))"

definition init_flipped ::
  "'wp window_lib \<Rightarrow> Face3D \<Rightarrow> ('wp, 'sp) Room2D \<Rightarrow> error + ('wp, 'sp) Room2D" where
  "init_flipped W floor_geo r =
     (if normal_z floor_geo < 0
      then ebind (flip_wall_assigned_objects W floor_geo (boundary_conditions r)
                    (window_parameters r) (shading_parameters r))
             (\<lambda>(b, w, s). Inr (r\<lparr>boundary_conditions := b, window_parameters := w,
                                   shading_parameters := s\<rparr>))
      else Inr r)"

text \<open>
  \<^verbatim>\<open>Room2D.__init__\<close>. The identifier is checked first. The floor plate is turned
  upwards, rebuilt on a horizontal plane with the default of \<^verbatim>\<open>enforce_right_hand\<close> and,
  for a tolerance other than zero, checked to be horizontal. The default boundary
  condition is Outdoors when the ceiling is above zero and Ground otherwise.
\<close>

definition Room2D_init ::
  "geometry_lib \<Rightarrow> 'wp window_lib \<Rightarrow> string \<Rightarrow> Face3D \<Rightarrow> real \<Rightarrow> bc list option \<Rightarrow>
     'wp option list option \<Rightarrow> 'sp option list option \<Rightarrow> bool \<Rightarrow> bool \<Rightarrow> real \<Rightarrow>
     error + ('wp, 'sp) Room2D" where
  "Room2D_init G W identifier0 floor_geo ftc bcs_in wps_in shds_in ground_contact top_exposed
     tolerance =
     (if \<not> valid_identifier identifier0 then Inl AssertionError
      else
      let up = (if normal_z floor_geo \<ge> 0 then floor_geo else face_flip floor_geo) in
      ebind (Face3D_init G True (boundary up) 1 (holes up)) (\<lambda>fg.
      if tolerance \<noteq> 0 \<and> \<not> horizontal_within fg tolerance then Inl AssertionError
      else
      ebind (set_floor_to_ceiling_height ftc (init_geometry identifier0 fg)) (\<lambda>r1.
      ebind (init_boundary_conditions bcs_in r1) (\<lambda>r2.
      ebind (set_window_parameters wps_in r2) (\<lambda>r3.
      ebind (set_shading_parameters shds_in r3) (\<lambda>r4.
      ebind (init_flipped W floor_geo r4) (\<lambda>r5.
      Inr (r5\<lparr>is_ground_contact := ground_contact, is_top_exposed := top_exposed,
              air_boundaries := None\<rparr>))))))))"

text \<open>
  \<^verbatim>\<open>Room2D.from_polygon\<close>. A clockwise polygon is reversed together with the
  per-segment inputs; window parameters are paired with the segments of the reversed
  polygon and the asymmetric ones flipped. The floor plate is built on the horizontal
  plane at the floor height without \<^verbatim>\<open>enforce_right_hand\<close> and handed to the constructor
  with the default tolerance 0.
\<close>

definition seg_length2 :: "segment2 \<Rightarrow> real" where
  "seg_length2 s = (case s of ((x1, y1), (x2, y2)) \<Rightarrow> sqrt ((x2 - x1)\<^sup>2 + (y2 - y1)\<^sup>2))"

definition xy_to_xyz :: "real \<Rightarrow> point2 \<Rightarrow> point3" where
  "xy_to_xyz h v = (fst v, snd v, h)"


text \<open>The signed area of a polygon by the shoelace formula; it is zero for a degenerate polygon.\<close>

definition polygon_signed_area :: "point2 list \<Rightarrow> real" where
  "polygon_signed_area ps = (\<Sum>((x1, y1), (x2, y2)) \<leftarrow> ring_segments ps. x1 * y2 - y1 * x2) / 2"


section \<open>Single-segment setters and adjacency between two rooms\<close>




text \<open>The decimal digits of a natural number, for the face identifiers.\<close>

fun string_of_nat :: "nat \<Rightarrow> string" where
  "string_of_nat n =
     (if n < 10 then [''0123456789'' ! n]
      else string_of_nat (n div 10) @ [''0123456789'' ! (n mod 10)])"

text \<open>The identifier of the face of a segment: \<^verbatim>\<open>'{}..Face{}'.format(identifier, index + 1)\<close>.\<close>

definition face_id :: "('wp, 'sp) Room2D \<Rightarrow> nat \<Rightarrow> string" where
  "face_id r seg_index = ident r @ ''..Face'' @ string_of_nat (seg_index + 1)"

definition surface_to :: "('wp, 'sp) Room2D \<Rightarrow> nat \<Rightarrow> bc" where
  "surface_to r seg_index = Surface (face_id r seg_index) (ident r)"

text \<open>
  \<^verbatim>\<open>Room2D.set_adjacency\<close> on two distinct rooms: both segments get a Surface boundary
  condition naming the other one; then, when a window parameter is present and the two
  differ or the first is asymmetric, the conflict is resolved by the window areas under the
  smaller of the two room heights, or it is an error when resolution is off.
\<close>

definition set_adjacency ::
  "'wp window_lib \<Rightarrow> ('wp, 'sp) Room2D \<Rightarrow> ('wp, 'sp) Room2D \<Rightarrow> nat \<Rightarrow> nat \<Rightarrow> bool \<Rightarrow>
     error option \<times> ('wp, 'sp) Room2D \<times> ('wp, 'sp) Room2D" where
  "set_adjacency W self other_room_2d self_seg_index other_seg_index resolve_window_conflicts =
     (let ids_1 = surface_to self self_seg_index;
          ids_2 = surface_to other_room_2d other_seg_index
      in
      if \<not> self_seg_index < length (boundary_conditions self)
      then (Some IndexError, self, other_room_2d)
      else
      let self1 = self\<lparr>boundary_conditions := (boundary_conditions self)[self_seg_index := ids_2]\<rparr> in
      if \<not> other_seg_index < length (boundary_conditions other_room_2d)
      then (Some IndexError, self1, other_room_2d)
      else
      let other1 = other_room_2d\<lparr>boundary_conditions :=
                     (boundary_conditions other_room_2d)[other_seg_index := ids_1]\<rparr> in
      if \<not> self_seg_index < length (window_parameters self1) then (Some IndexError, self1, other1)
      else if \<not> other_seg_index < length (window_parameters other1) then (Some IndexError, self1, other1)
      else
      let wp1 = window_parameters self1 ! self_seg_index;
          wp2 = window_parameters other1 ! other_seg_index
      in
      if (wp1 \<noteq> None \<or> wp2 \<noteq> None) \<and> (wp1 \<noteq> wp2 \<or> asymmetric_opt W wp1)
      then
        if resolve_window_conflicts
        then
          let ftc1 = floor_to_ceiling_height self1;
              ftc2 = floor_to_ceiling_height other1;
              min_ftc = min ftc1 ftc2
          in
          if \<not> self_seg_index < length (floor_segments self1) then (Some IndexError, self1, other1)
          else
          let seg1 = floor_segments self1 ! self_seg_index;
              a1 = area_or_zero W wp1 seg1 min_ftc
          in
          if \<not> other_seg_index < length (floor_segments other1) then (Some IndexError, self1, other1)
          else
          let seg2 = floor_segments other1 ! other_seg_index;
              a2 = area_or_zero W wp2 seg2 min_ftc
          in
          if a1 > a2
          then (None, self1,
                other1\<lparr>window_parameters := (window_parameters other1)
                          [other_seg_index := flip_if_asymmetric W wp1 (seg_length seg2)]\<rparr>)
          else (None,
                self1\<lparr>window_parameters := (window_parameters self1)
                         [self_seg_index := flip_if_asymmetric W wp2 (seg_length seg1)]\<rparr>,
                other1)
        else if wp1 \<noteq> wp2 then (Some AssertionError, self1, other1)
        else (None, self1, other1)
      else (None, self1, other1))"


section \<open>Removal of duplicate vertices\<close>

text \<open>
  The loop of \<^verbatim>\<open>remove_duplicate_vertices\<close> over one ring. The ring is given as its list
  of segments, that is the pairs of a vertex and the next one; \<open>i\<close> counts the pairs and
  \<open>off\<close> is the number of segments of the rings before this one. A vertex is kept, with
  the items of its segment, when the next vertex is not equivalent to it; otherwise the
  index is recorded as removed. The boundary conditions, window and shading parameters
  are read at \<open>off + i\<close>; the air boundaries are read at \<open>i\<close>, as the source does for the
  boundary and for the holes alike.
\<close>

type_synonym ('wp, 'sp) ring_result =
  "point3 list \<times> bc list \<times> 'wp option list \<times> 'sp option list \<times> bool list \<times> nat list"

fun dedupe_ring ::
  "geometry_lib \<Rightarrow> real \<Rightarrow> ('wp, 'sp) Room2D \<Rightarrow> bool list \<Rightarrow> nat \<Rightarrow> nat \<Rightarrow> segment3 list \<Rightarrow>
     error + ('wp, 'sp) ring_result" where
  "dedupe_ring G tolerance r exist_abs off i [] = Inr ([], [], [], [], [], [])"
| "dedupe_ring G tolerance r exist_abs off i ((prev, vert) # rest) =
     (if \<not> is_equivalent G vert prev tolerance
      then
        if off + i < length (boundary_conditions r) \<and> off + i < length (window_parameters r) \<and>
           off + i < length (shading_parameters r) \<and> i < length exist_abs
        then ebind (dedupe_ring G tolerance r exist_abs off (Suc i) rest)
               (\<lambda>(new_pts, new_bcs, new_win, new_shd, new_abs, removed).
                  Inr (prev # new_pts, boundary_conditions r ! (off + i) # new_bcs,
                       window_parameters r ! (off + i) # new_win,
                       shading_parameters r ! (off + i) # new_shd,
                       exist_abs ! i # new_abs, removed))
        else Inl IndexError
      else ebind (dedupe_ring G tolerance r exist_abs off (Suc i) rest)
             (\<lambda>(new_pts, new_bcs, new_win, new_shd, new_abs, removed).
                Inr (new_pts, new_bcs, new_win, new_shd, new_abs, i # removed)))"

text \<open>The loop over the holes; \<open>seg_count\<close> grows by the length of each hole.\<close>

fun dedupe_holes ::
  "geometry_lib \<Rightarrow> real \<Rightarrow> ('wp, 'sp) Room2D \<Rightarrow> bool list \<Rightarrow> nat \<Rightarrow> point3 list list \<Rightarrow>
     error + (point3 list list \<times> bc list \<times> 'wp option list \<times> 'sp option list \<times> bool list \<times> nat list)"
  where
  "dedupe_holes G tolerance r exist_abs seg_count [] = Inr ([], [], [], [], [], [])"
| "dedupe_holes G tolerance r exist_abs seg_count (hole # hs) =
     (if hole = [] then Inl IndexError
      else
      ebind (dedupe_ring G tolerance r exist_abs seg_count 0 (ring_segments hole))
        (\<lambda>(new_h_pts, bcs1, win1, shd1, abs1, removed1).
      ebind (dedupe_holes G tolerance r exist_abs (seg_count + length hole) hs)
        (\<lambda>(new_holes, bcs2, win2, shd2, abs2, removed2).
           Inr (new_h_pts # new_holes, bcs1 @ bcs2, win1 @ win2, shd1 @ shd2, abs1 @ abs2,
                removed1 @ removed2))))"

text \<open>
  \<^verbatim>\<open>Room2D.remove_duplicate_vertices\<close>. The air boundaries are read through their getter
  first, which fills the attribute. The new floor plate is built from the kept vertices on
  the old plane, with the default of \<^verbatim>\<open>enforce_right_hand\<close>; a refusal of the Face3D
  constructor is raised as a ValueError. Only then
  are the geometry, the segment count and the four arrays assigned (\<open>deduped_room\<close> is
  the room with these assignments made), so a raise leaves the room as it was but for the
  filled air boundaries. The result is the list of removed indices.
\<close>

definition deduped_room ::
  "geometry_lib \<Rightarrow> real \<Rightarrow> ('wp, 'sp) Room2D \<Rightarrow> bool list \<Rightarrow> error + (('wp, 'sp) Room2D \<times> nat list)"
  where
  "deduped_room G tolerance r0 exist_abs =
     (let fg = floor_geometry r0 in
      if boundary fg = [] then Inl IndexError
      else
      ebind (dedupe_ring G tolerance r0 exist_abs 0 0 (ring_segments (boundary fg)))
        (\<lambda>(new_bound, bcs1, win1, shd1, abs1, removed1).
      ebind (if has_holes fg
             then dedupe_holes G tolerance r0 exist_abs (length (boundary fg)) (holes fg)
             else Inr ([], [], [], [], [], []))
        (\<lambda>(new_holes, bcs2, win2, shd2, abs2, removed2).
      ebind (case Face3D_init G True new_bound (normal_z fg) new_holes of
               Inl e \<Rightarrow> Inl ValueError
             | Inr f \<Rightarrow> Inr f)
        (\<lambda>f.
           Inr (r0\<lparr>floor_geometry := f, segment_count := length (bcs1 @ bcs2),
                   boundary_conditions := bcs1 @ bcs2, window_parameters := win1 @ win2,
                   shading_parameters := shd1 @ shd2, air_boundaries := Some (abs1 @ abs2)\<rparr>,
                removed1 @ removed2)))))"

definition remove_duplicate_vertices ::
  "geometry_lib \<Rightarrow> real \<Rightarrow> ('wp, 'sp) Room2D \<Rightarrow> (error + nat list) \<times> ('wp, 'sp) Room2D" where
  "remove_duplicate_vertices G tolerance r =
     (let (exist_abs, r0) = get_air_boundaries r in
      case deduped_room G tolerance r0 exist_abs of
        Inl e \<Rightarrow> (Inl e, r0)
      | Inr (r1, removed_indices) \<Rightarrow> (Inr removed_indices, r1))"

text \<open>A segment index that is valid for the boundary conditions, the window parameters and the geometry of a room.\<close>

definition segment_in_range :: "('wp, 'sp) Room2D \<Rightarrow> nat \<Rightarrow> bool" where
  "segment_in_range r j =
     (j < length (boundary_conditions r) \<and> j < length (window_parameters r) \<and>
      j < length (floor_segments r))"

section \<open>Solving adjacency over a list of rooms\<close>

text \<open>
  \<^verbatim>\<open>Room2D.solve_adjacency\<close> works on a list of rooms that are distinct objects and
  mutates them in place; the model threads the list of rooms and the growing list
  \<open>adj_info\<close> through its loops and names a room by its position in the list. The four
  nested loops are four recursive functions. An adjacency is the pair of
  (room position, segment index) pairs.
\<close>

type_synonym adjacency = "(nat \<times> nat) \<times> (nat \<times> nat)"

type_synonym ('wp, 'sp) solve_state = "('wp, 'sp) Room2D list \<times> adjacency list"

definition boundary_polygon2d :: "('wp, 'sp) Room2D \<Rightarrow> point2 list" where
  "boundary_polygon2d r = map to_2d (boundary (floor_geometry r))"

text \<open>
  The test of the innermost loop: both end points of \<open>seg_2\<close> lie within the tolerance
  of \<open>seg_1\<close>. The second distance is computed only when the first one passes.
\<close>

definition segments_match :: "geometry_lib \<Rightarrow> real \<Rightarrow> segment2 \<Rightarrow> segment2 \<Rightarrow> error + bool" where
  "segments_match G tolerance seg_1 seg_2 =
     ebind (distance_to_point G seg_1 (fst seg_2)) (\<lambda>d1.
       if d1 \<le> tolerance
       then ebind (distance_to_point G seg_1 (snd seg_2)) (\<lambda>d2. Inr (d2 \<le> tolerance))
       else Inr False)"

text \<open>
  The innermost loop runs over the segments of the second room and stops at the first one
  that does not carry a Surface boundary condition yet and matches \<open>seg_1\<close>: it sets the
  adjacency between the two rooms and appends the pair to \<open>adj_info\<close>.
\<close>

fun seg_2_loop ::
  "geometry_lib \<Rightarrow> 'wp window_lib \<Rightarrow> real \<Rightarrow> bool \<Rightarrow> nat \<Rightarrow> nat \<Rightarrow> nat \<Rightarrow> segment2 \<Rightarrow>
     (nat \<times> segment2) list \<Rightarrow> ('wp, 'sp) solve_state \<Rightarrow> error option \<times> ('wp, 'sp) solve_state" where
  "seg_2_loop G W tolerance rwc i i2 j seg_1 [] state = (None, state)"
| "seg_2_loop G W tolerance rwc i i2 j seg_1 ((k, seg_2) # rest) state =
     (let room_2ds = fst state; adj_info = snd state;
          room_1 = room_2ds ! i; room_2 = room_2ds ! i2 in
      if \<not> k < length (boundary_conditions room_2) then (Some IndexError, state)
      else if is_Surface (boundary_conditions room_2 ! k)
      then seg_2_loop G W tolerance rwc i i2 j seg_1 rest state
      else
        case segments_match G tolerance seg_1 seg_2 of
          Inl e \<Rightarrow> (Some e, state)
        | Inr False \<Rightarrow> seg_2_loop G W tolerance rwc i i2 j seg_1 rest state
        | Inr True \<Rightarrow>
            (case set_adjacency W room_1 room_2 j k rwc of
               (e, room_1a, room_2a) \<Rightarrow>
                 (e, room_2ds[i := room_1a, i2 := room_2a],
                  if e = None then adj_info @ [((i, j), (i2, k))] else adj_info)))"

text \<open>The loop over the segments of the first room.\<close>

fun seg_1_loop ::
  "geometry_lib \<Rightarrow> 'wp window_lib \<Rightarrow> real \<Rightarrow> bool \<Rightarrow> nat \<Rightarrow> nat \<Rightarrow> (nat \<times> segment2) list \<Rightarrow>
     ('wp, 'sp) solve_state \<Rightarrow> error option \<times> ('wp, 'sp) solve_state" where
  "seg_1_loop G W tolerance rwc i i2 [] state = (None, state)"
| "seg_1_loop G W tolerance rwc i i2 ((j, seg_1) # rest) state =
     (case seg_2_loop G W tolerance rwc i i2 j seg_1
             (enumerate 0 (floor_segments_2d (fst state ! i2))) state of
        (e, state1) \<Rightarrow>
          if e = None then seg_1_loop G W tolerance rwc i i2 rest state1 else (e, state1))"

text \<open>
  The loop over the rooms after the first one, given by their positions. A pair of rooms
  whose bounding rectangles do not overlap is skipped.
\<close>

fun room_2_loop ::
  "geometry_lib \<Rightarrow> 'wp window_lib \<Rightarrow> real \<Rightarrow> bool \<Rightarrow> nat \<Rightarrow> nat list \<Rightarrow>
     ('wp, 'sp) solve_state \<Rightarrow> error option \<times> ('wp, 'sp) solve_state" where
  "room_2_loop G W tolerance rwc i [] state = (None, state)"
| "room_2_loop G W tolerance rwc i (i2 # rest) state =
     (let room_1 = fst state ! i; room_2 = fst state ! i2 in
      if \<not> overlapping_bounding_rect G (boundary_polygon2d room_1) (boundary_polygon2d room_2)
             tolerance
      then room_2_loop G W tolerance rwc i rest state
      else
        case seg_1_loop G W tolerance rwc i i2 (enumerate 0 (floor_segments_2d room_1)) state of
          (e, state1) \<Rightarrow>
            if e = None then room_2_loop G W tolerance rwc i rest state1 else (e, state1))"

text \<open>
  The outer loop. An IndexError raised inside is caught and the loop goes on with the next
  room; any other error leaves the method.
\<close>

fun room_1_loop ::
  "geometry_lib \<Rightarrow> 'wp window_lib \<Rightarrow> real \<Rightarrow> bool \<Rightarrow> nat list \<Rightarrow>
     ('wp, 'sp) solve_state \<Rightarrow> error option \<times> ('wp, 'sp) solve_state" where
  "room_1_loop G W tolerance rwc [] state = (None, state)"
| "room_1_loop G W tolerance rwc (i # rest) state =
     (case room_2_loop G W tolerance rwc i [Suc i ..< length (fst state)] state of
        (e, state1) \<Rightarrow>
          if e = None \<or> e = Some IndexError then room_1_loop G W tolerance rwc rest state1
          else (e, state1))"

text \<open>
  The first loop of the method removes the duplicate vertices of every room; a ValueError
  is passed over, any other error leaves the method.
\<close>

fun remove_all_duplicate_vertices ::
  "geometry_lib \<Rightarrow> real \<Rightarrow> ('wp, 'sp) Room2D list \<Rightarrow> error option \<times> ('wp, 'sp) Room2D list" where
  "remove_all_duplicate_vertices G tolerance [] = (None, [])"
| "remove_all_duplicate_vertices G tolerance (room # rest) =
     (case remove_duplicate_vertices G tolerance room of
        (res, room1) \<Rightarrow>
          if res \<noteq> Inl ValueError \<and> isl res
          then (Some (projl res), room1 # rest)
          else (case remove_all_duplicate_vertices G tolerance rest of
                  (e, rest1) \<Rightarrow> (e, room1 # rest1)))"

text \<open>
  \<^verbatim>\<open>Room2D.solve_adjacency\<close>: the list of adjacencies it returns, or the error that
  leaves it, together with the rooms as they are left.
\<close>

definition solve_adjacency ::
  "geometry_lib \<Rightarrow> 'wp window_lib \<Rightarrow> ('wp, 'sp) Room2D list \<Rightarrow> real \<Rightarrow> bool \<Rightarrow>
     (error + adjacency list) \<times> ('wp, 'sp) Room2D list" where
  "solve_adjacency G W room_2ds tolerance resolve_window_conflicts =
     (case remove_all_duplicate_vertices G tolerance room_2ds of
        (Some e, rooms) \<Rightarrow> (Inl e, rooms)
      | (None, rooms) \<Rightarrow>
          (case room_1_loop G W tolerance resolve_window_conflicts [0 ..< length rooms] (rooms, []) of
             (Some e, rooms1, adj_info) \<Rightarrow> (Inl e, rooms1)
           | (None, rooms1, adj_info) \<Rightarrow> (Inr adj_info, rooms1)))"

section \<open>The room volume under a roof\<close>

text \<open>
  A face of a room volume is given by its vertex loops, the boundary first and then the
  holes; that is all a Polyface3D reads of a Face3D. A roof plane is a plane that is not
  vertical, \<open>z = a x + b y + c\<close>, given by \<open>(a, b, c)\<close>; projecting a point onto it along
  the vertical keeps \<open>x\<close> and \<open>y\<close>. A roof face carries its plane. A roof specification is
  the list of its polygons, each with its plane.
\<close>

type_synonym vface = "point3 list list"
type_synonym roof_plane = "real \<times> real \<times> real"
type_synonym roof_face = "vface \<times> roof_plane"
type_synonym roof_spec = "(point2 list \<times> roof_plane) list"

definition project_point :: "roof_plane \<Rightarrow> point3 \<Rightarrow> point3" where
  "project_point pl p =
     (case (pl, p) of ((a, b, c), (x, y, z)) \<Rightarrow> (x, y, a * x + b * y + c))"

definition from_point2d :: "point2 \<Rightarrow> point3" where
  "from_point2d p = (fst p, snd p, 0)"

text \<open>
  The result of intersecting the room with one roof polygon, in \<^verbatim>\<open>_roof_faces\<close>: the roof
  polygon is degenerate and skipped, or the intersection fails and the method returns None,
  or roof faces come out together with the area they cover.
\<close>

datatype cap_result = CapSkip | CapFail | Caps "roof_face list" real

text \<open>
  The operations of the geometry library that the volume builder calls, and the three
  repair methods of Room2D that work on the edges of a Polyface3D
  (\<^verbatim>\<open>_separate_disconnected_faces\<close>, \<^verbatim>\<open>_patch_vertical_gaps\<close>, \<^verbatim>\<open>_cap_planar_holes\<close>),
  are parameters of the model; \<open>'pf\<close> is the type of polyfaces. \<open>roof_caps\<close> stands for
  the body of the loop over the roof polygons in \<^verbatim>\<open>_roof_faces\<close> (snapping, boolean
  intersection, projection onto the plane), and \<open>crossing_wall\<close> for the branch of
  \<^verbatim>\<open>_wall_faces_with_roof\<close> that builds the wall of a segment that leaves its roof polygon:
  it yields the roof points of the wall and the new current and other roofs, or nothing
  when the method returns None. A removal of colinear vertices yields nothing when the
  library raises its AssertionError for a degenerate shape.
\<close>

record 'pf volume_lib =
  polygon_relationship :: "point2 list \<Rightarrow> point2 list \<Rightarrow> real \<Rightarrow> int"
  point_relationship :: "point2 list \<Rightarrow> point2 \<Rightarrow> real \<Rightarrow> int"
  from_faces :: "vface list \<Rightarrow> real \<Rightarrow> 'pf"
  from_offset_face :: "Face3D \<Rightarrow> real \<Rightarrow> 'pf"
  is_solid :: "'pf \<Rightarrow> bool"
  naked_edges :: "'pf \<Rightarrow> nat"
  merge_overlapping_edges :: "'pf \<Rightarrow> real \<Rightarrow> real \<Rightarrow> 'pf"
  separate_disconnected_faces :: "nat \<Rightarrow> 'pf \<Rightarrow> int list \<Rightarrow> real \<Rightarrow> 'pf \<times> int list \<times> nat set option"
  patch_vertical_gaps :: "'pf \<Rightarrow> int list \<Rightarrow> real \<Rightarrow> 'pf \<times> int list"
  cap_planar_holes :: "'pf \<Rightarrow> int list \<Rightarrow> real \<Rightarrow> 'pf \<times> int list"
  remove_colinear_vertices :: "point2 list \<Rightarrow> real \<Rightarrow> point2 list option"
  face_remove_colinear_vertices :: "roof_face \<Rightarrow> real \<Rightarrow> roof_face option"
  roof_caps :: "point2 list list \<Rightarrow> point2 list list \<Rightarrow> bool \<Rightarrow> point2 list \<Rightarrow> roof_plane \<Rightarrow> real
                  \<Rightarrow> cap_result"
  coplanar_difference :: "vface \<Rightarrow> vface list \<Rightarrow> real \<Rightarrow> real \<Rightarrow> vface list"
  face_area :: "vface \<Rightarrow> real"
  crossing_wall :: "point2 list \<times> roof_plane \<Rightarrow> roof_spec \<Rightarrow> point2 \<Rightarrow> point2 \<Rightarrow> segment3 \<Rightarrow> real
                      \<Rightarrow> (point3 list \<times> (point2 list \<times> roof_plane) \<times> roof_spec) option"

text \<open>
  The angle tolerance of the builder is \<^verbatim>\<open>math.radians(1)\<close>, the float that prints as
  0.017453292519943295.
\<close>

definition ang_tol :: real where
  "ang_tol = 17453292519943295 / 1000000000000000000"

text \<open>The area of a Polygon2D is the absolute value of its signed area.\<close>

definition polygon_area :: "point2 list \<Rightarrow> real" where
  "polygon_area ps = \<bar>polygon_signed_area ps\<bar>"

text \<open>
  The first loop of \<^verbatim>\<open>_room_volume_with_roof\<close>: the roof polygons whose relationship to
  the room polygon is not negative are kept; the first one that contains the room polygon
  (relationship 1) replaces all of them and ends the loop, with \<open>is_full_bound\<close> set.
\<close>

fun relevant_roofs ::
  "'pf volume_lib \<Rightarrow> point2 list \<Rightarrow> real \<Rightarrow> roof_spec \<Rightarrow> roof_spec \<Rightarrow> roof_spec \<times> bool" where
  "relevant_roofs K room_poly tolerance [] rel = (rel, False)"
| "relevant_roofs K room_poly tolerance ((rf_py, rf_pl) # rest) rel =
     (let poly_rel = polygon_relationship K rf_py room_poly tolerance in
      if poly_rel = 1 then ([(rf_py, rf_pl)], True)
      else if poly_rel \<ge> 0 then relevant_roofs K room_poly tolerance rest (rel @ [(rf_py, rf_pl)])
      else relevant_roofs K room_poly tolerance rest rel)"

text \<open>Cutting a list into consecutive parts of given lengths, as the slices by \<open>v_count\<close> do.\<close>

fun split_by :: "nat list \<Rightarrow> 'a list \<Rightarrow> 'a list list" where
  "split_by [] xs = []"
| "split_by (n # ns) xs = take n xs # split_by ns (drop n xs)"

text \<open>
  The fully bounded case: every floor segment is projected onto the single roof plane and
  gives one wall face; the projected start points give the roof face, with one loop per
  ring of the floor. The faces are the flipped floor, the walls and the roof.
\<close>

definition floor_flipped :: "('wp, 'sp) Room2D \<Rightarrow> vface" where
  "floor_flipped r = rev (boundary (floor_geometry r)) # map rev (holes (floor_geometry r))"

definition full_bound_faces :: "('wp, 'sp) Room2D \<Rightarrow> roof_plane \<Rightarrow> vface list" where
  "full_bound_faces r roof_plane =
     (let fg = floor_geometry r;
          walls = map (\<lambda>(p1, p2). [[p1, p2, project_point roof_plane p2, project_point roof_plane p1]])
                    (floor_segments r);
          roof_verts = map (\<lambda>(p1, p2). project_point roof_plane p1) (floor_segments r);
          roof = (if \<not> has_holes fg then [roof_verts]
                  else split_by (length (boundary fg) # map length (holes fg)) roof_verts)
      in [floor_flipped r] @ walls @ [roof])"

text \<open>
  \<^verbatim>\<open>_roof_faces\<close>. Degenerate room polygons are dropped and a room without any left gives
  None. The caps of the relevant roof polygons are collected with the area they cover. When
  that area differs from the area of the room by more than the area tolerance, the part of
  the ceiling that the caps do not cover is added as flat roof faces; they lie in the plane
  of the ceiling, \<open>z = ceiling_height\<close>. At the end colinear vertices are removed and
  degenerate faces dropped.
\<close>

fun collect_caps ::
  "'pf volume_lib \<Rightarrow> point2 list list \<Rightarrow> point2 list list \<Rightarrow> bool \<Rightarrow> real \<Rightarrow> roof_spec \<Rightarrow>
     roof_face list \<times> real \<Rightarrow> (roof_face list \<times> real) option" where
  "collect_caps K room_polys all_room_poly holed tolerance [] acc = Some acc"
| "collect_caps K room_polys all_room_poly holed tolerance ((rf_poly, rf_plane) # rest) acc =
     (case roof_caps K room_polys all_room_poly holed rf_poly rf_plane tolerance of
        CapSkip \<Rightarrow> collect_caps K room_polys all_room_poly holed tolerance rest acc
      | CapFail \<Rightarrow> None
      | Caps faces area \<Rightarrow>
          collect_caps K room_polys all_room_poly holed tolerance rest
            (fst acc @ faces, snd acc + area))"

definition at_height :: "real \<Rightarrow> vface \<Rightarrow> vface" where
  "at_height h f = map (map (\<lambda>p. (fst p, fst (snd p), h))) f"

definition roof_faces ::
  "'pf volume_lib \<Rightarrow> ('wp, 'sp) Room2D \<Rightarrow> point2 list list \<Rightarrow> roof_spec \<Rightarrow> real \<Rightarrow>
     roof_face list option" where
  "roof_faces K r all_room_poly rel tolerance =
     (let room_polys = List.map_filter (\<lambda>p. remove_colinear_vertices K p tolerance) all_room_poly in
      if room_polys = [] then None
      else
        let room_poly_area = polygon_area (hd all_room_poly)
                               - sum_list (map polygon_area (tl all_room_poly)) in
        case collect_caps K room_polys all_room_poly (has_holes (floor_geometry r)) tolerance rel
               ([], 0) of
          None \<Rightarrow> None
        | Some (caps, roof_poly_area) \<Rightarrow>
            let sort_lens = sort (map seg_length2 (ring_segments (hd all_room_poly)));
                max_len = last sort_lens;
                min_len0 = hd sort_lens;
                min_len = (if min_len0 < tolerance then tolerance else min_len0);
                tol_area = min_len * tolerance;
                area_diff = \<bar>room_poly_area - roof_poly_area\<bar>;
                all_faces =
                  (if area_diff > tol_area
                   then
                     let rm_z = ceiling_height r;
                         subtract_geo = map (\<lambda>rf. at_height rm_z (fst rf)) caps;
                         fg = floor_geometry r;
                         ceil_geo = map (map (\<lambda>(x, y, z). (x, y, z + floor_to_ceiling_height r)))
                                      (boundary fg # holes fg);
                         cover_faces = coplanar_difference K ceil_geo subtract_geo tolerance ang_tol;
                         up_tol_area = max_len * tolerance
                     in caps @ map (\<lambda>f. (f, (0, 0, rm_z)))
                                (filter (\<lambda>f. face_area K f \<le> area_diff + up_tol_area) cover_faces)
                   else caps)
            in Some (List.map_filter (\<lambda>rf. face_remove_colinear_vertices K rf tolerance) all_faces))"

text \<open>
  \<^verbatim>\<open>_wall_faces_with_roof\<close>. For each ring the roof polygon that holds its first vertex
  becomes the current one (none: the method returns None). A segment that ends in the
  current polygon gives the wall between the segment and its projection onto the current
  plane; any other segment is handed to \<open>crossing_wall\<close>.
\<close>

fun find_current :: "'pf volume_lib \<Rightarrow> point2 \<Rightarrow> real \<Rightarrow> roof_spec \<Rightarrow> roof_spec \<Rightarrow>
    ((point2 list \<times> roof_plane) \<times> roof_spec) option" where
  "find_current K pt1 tolerance before [] = None"
| "find_current K pt1 tolerance before ((rf_py, rf_pl) # rest) =
     (if point_relationship K rf_py pt1 tolerance \<ge> 0 then Some ((rf_py, rf_pl), before @ rest)
      else find_current K pt1 tolerance (before @ [(rf_py, rf_pl)]) rest)"

fun ring_walls ::
  "'pf volume_lib \<Rightarrow> real \<Rightarrow> point2 \<Rightarrow> (point2 \<times> segment3) list \<Rightarrow>
     (point2 list \<times> roof_plane) \<times> roof_spec \<Rightarrow> vface list option" where
  "ring_walls K tolerance pt1 [] state = Some []"
| "ring_walls K tolerance pt1 ((pt2, seg) # rest) (current, other) =
     (if point_relationship K (fst current) pt2 tolerance \<ge> 0
      then
        (case ring_walls K tolerance pt2 rest (current, other) of
           None \<Rightarrow> None
         | Some faces \<Rightarrow>
             Some ([[fst seg, snd seg, project_point (snd current) (snd seg),
                     project_point (snd current) (fst seg)]] # faces))
      else
        (case crossing_wall K current other pt1 pt2 seg tolerance of
           None \<Rightarrow> None
         | Some (rf_pts, current1, other1) \<Rightarrow>
             if rf_pts = [] then None
             else
               (case ring_walls K tolerance pt2 rest (current1, other1) of
                  None \<Rightarrow> None
                | Some faces \<Rightarrow> Some ([[fst seg, snd seg] @ rf_pts] # faces))))"

fun wall_faces_with_roof ::
  "'pf volume_lib \<Rightarrow> (point2 list \<times> segment3 list) list \<Rightarrow> roof_spec \<Rightarrow> real \<Rightarrow> vface list option"
  where
  "wall_faces_with_roof K [] rel tolerance = Some []"
| "wall_faces_with_roof K ((rm_poly, rm_segs) # rest) rel tolerance =
     (case find_current K (hd rm_poly) tolerance [] rel of
        None \<Rightarrow> None
      | Some state \<Rightarrow>
          (case ring_walls K tolerance (hd rm_poly) (zip (rotate1 rm_poly) rm_segs) state of
             None \<Rightarrow> None
           | Some faces \<Rightarrow>
               (case wall_faces_with_roof K rest rel tolerance of
                  None \<Rightarrow> None
                | Some further \<Rightarrow> Some (faces @ further))))"

text \<open>
  The repairs of the general case, in the order of the source: merge of overlapping edges,
  patching of vertical gaps, separation of disconnected faces, capping of planar holes,
  each followed by a merge when the polyface is still not solid. The polyface that comes
  out is returned whether it is solid or not.
\<close>

definition merge_if_open :: "'pf volume_lib \<Rightarrow> real \<Rightarrow> 'pf \<Rightarrow> 'pf" where
  "merge_if_open K tolerance pf =
     (if \<not> is_solid K pf then merge_overlapping_edges K pf tolerance ang_tol else pf)"

definition repair ::
  "'pf volume_lib \<Rightarrow> nat \<Rightarrow> real \<Rightarrow> 'pf \<times> int list \<times> nat set option \<Rightarrow>
     'pf \<times> int list \<times> nat set option" where
  "repair K n tolerance start =
     (let (pf0, roof_face_i0, ex_wall_i0) = start;
          pf1 = merge_if_open K tolerance pf0;
          (pf2, roof_face_i2) =
            (if naked_edges K pf1 \<noteq> 0
             then (let (pf, rfi) = patch_vertical_gaps K pf1 roof_face_i0 tolerance
                   in (merge_if_open K tolerance pf, rfi))
             else (pf1, roof_face_i0));
          (pf3, roof_face_i3, ex_wall_i3) =
            (if \<not> is_solid K pf2
             then (let (pf, rfi, ex) = separate_disconnected_faces K n pf2 roof_face_i2 tolerance
                   in (merge_if_open K tolerance pf, rfi, ex))
             else (pf2, roof_face_i2, ex_wall_i0));
          (pf4, roof_face_i4) =
            (if naked_edges K pf3 \<noteq> 0
             then (let (pf, rfi) = cap_planar_holes K pf3 roof_face_i3 tolerance
                   in (merge_if_open K tolerance pf, rfi))
             else (pf3, roof_face_i3))
      in (pf4, roof_face_i4, ex_wall_i3))"

text \<open>
  The faces of the general case: the rings of the room with their segments, the roof faces,
  the roof polygons rebuilt from the roof faces when faces were added, and the walls. The
  result is the list of the faces (the flipped floor, the walls, the roofs) with the number
  of roof faces, or None when the roof faces or the walls cannot be computed.
\<close>

definition general_faces ::
  "'pf volume_lib \<Rightarrow> ('wp, 'sp) Room2D \<Rightarrow> roof_spec \<Rightarrow> real \<Rightarrow> (vface list \<times> nat) option" where
  "general_faces K r rel tolerance =
     (let fg = floor_geometry r;
          room_poly = map to_2d (boundary fg);
          all_room_poly = room_poly # (if has_holes fg then map (map to_2d) (holes fg) else []);
          flr_segs = floor_segments r;
          all_segments = (if has_holes fg
                          then split_by (length room_poly # map length (holes fg)) flr_segs
                          else [flr_segs])
      in
      case roof_faces K r all_room_poly rel tolerance of
        None \<Rightarrow> None
      | Some rfs \<Rightarrow>
          let rel1 = (if length rfs > length rel
                      then map (\<lambda>geo. (map to_2d (hd (fst geo)), snd geo)) rfs
                      else rel)
          in
          (case wall_faces_with_roof K (zip all_room_poly all_segments) rel1 tolerance of
             None \<Rightarrow> None
           | Some walls \<Rightarrow> Some ([floor_flipped r] @ walls @ map fst rfs, length rfs)))"

text \<open>
  \<^verbatim>\<open>Room2D._room_volume_with_roof\<close>. The result None stands for the triple of None that
  the method returns when the roof faces or the walls cannot be computed. In the fully
  bounded case the polyface returned is built again from the assembled faces, while the
  indices come from the separation of disconnected faces when the first polyface is not
  solid.
\<close>

definition room_volume_with_roof ::
  "'pf volume_lib \<Rightarrow> ('wp, 'sp) Room2D \<Rightarrow> roof_spec \<Rightarrow> real \<Rightarrow>
     ('pf \<times> int list \<times> nat set option) option" where
  "room_volume_with_roof K r spec tolerance =
     (let (rel, is_full_bound) =
            relevant_roofs K (map to_2d (boundary (floor_geometry r))) tolerance spec []
      in
      if is_full_bound
      then
        let p_faces = full_bound_faces r (snd (hd rel));
            room_polyface = from_faces K p_faces tolerance;
            (roof_face_i, ex_wall_i) =
              (if \<not> is_solid K room_polyface
               then (let (pf, rfi, ex) =
                           separate_disconnected_faces K (len r) room_polyface [- 1] tolerance
                     in (rfi, ex))
               else ([- 1], None))
        in Some (from_faces K p_faces tolerance, roof_face_i, ex_wall_i)
      else
        (case general_faces K r rel tolerance of
           None \<Rightarrow> None
         | Some (p_faces, n_roofs) \<Rightarrow>
             Some (repair K (len r) tolerance
                     (from_faces K p_faces tolerance,
                      map (\<lambda>n. - int n - 1) [0 ..< n_roofs], None))))"

text \<open>
  The part of \<^verbatim>\<open>Room2D.to_honeybee\<close> that chooses the volume of a room for which its
  story gives a roof specification (the duplicate vertices of the room have been removed
  before): the volume under the roof when the builder returns a polyface and, with
  \<open>enforce_solid\<close>, that polyface is solid; otherwise the extrusion of the floor plate by
  the floor-to-ceiling height, with its last face as the roof. The result tells whether
  the roof was used, and gives the polyface and the indices of its roof faces.
\<close>

definition extrusion :: "'pf volume_lib \<Rightarrow> ('wp, 'sp) Room2D \<Rightarrow> 'pf" where
  "extrusion K r = from_offset_face K (floor_geometry r) (floor_to_ceiling_height r)"

definition roof_or_extrusion ::
  "'pf volume_lib \<Rightarrow> ('wp, 'sp) Room2D \<Rightarrow> roof_spec \<Rightarrow> real \<Rightarrow> bool \<Rightarrow> bool \<times> 'pf \<times> int list" where
  "roof_or_extrusion K r spec tolerance enforce_solid =
     (case room_volume_with_roof K r spec tolerance of
        None \<Rightarrow> (False, extrusion K r, [- 1])
      | Some (room_polyface, roof_face_i, ex_wall_i) \<Rightarrow>
          if enforce_solid \<and> \<not> is_solid K room_polyface then (False, extrusion K r, [- 1])
          else (True, room_polyface, roof_face_i))"

section \<open>The adjacencies a run makes, one at a time\<close>

text \<open>
  One step of a run with conflict resolution on: \<^verbatim>\<open>set_adjacency\<close> returns normally on
  segment \<open>j\<close> of the room at \<open>i\<close> and segment \<open>k\<close> of a later room at \<open>i2\<close>, whose
  segment does not carry a Surface boundary condition yet, and the pair is appended to
  \<open>adj_info\<close>. \<open>adj_steps\<close> is any number of such steps.
\<close>

inductive adj_step ::
  "'wp window_lib \<Rightarrow> ('wp, 'sp) solve_state \<Rightarrow> ('wp, 'sp) solve_state \<Rightarrow> bool" for W where
  step: "i < i2 \<Longrightarrow> i2 < length rooms \<Longrightarrow>
         segment_in_range (rooms ! i) j \<Longrightarrow> segment_in_range (rooms ! i2) k \<Longrightarrow>
         \<not> is_Surface (boundary_conditions (rooms ! i2) ! k) \<Longrightarrow>
         set_adjacency W (rooms ! i) (rooms ! i2) j k True = (None, r1, r2) \<Longrightarrow>
         adj_step W (rooms, adj) (rooms[i := r1, i2 := r2], adj @ [((i, j), (i2, k))])"

definition adj_steps ::
  "'wp window_lib \<Rightarrow> ('wp, 'sp) solve_state \<Rightarrow> ('wp, 'sp) solve_state \<Rightarrow> bool" where
  "adj_steps W = (adj_step W)\<^sup>*\<^sup>*"

text \<open>
  The segments named by a list of adjacencies; a pair is matched once when neither of its
  segments occurs in another pair of the list; a pair is linked in a list of rooms when each
  of its two segments carries the Surface boundary condition that names the other one.
\<close>

definition ends :: "adjacency list \<Rightarrow> (nat \<times> nat) list" where
  "ends adj = concat (map (\<lambda>(x, y). [x, y]) adj)"

definition matched_once :: "adjacency list \<Rightarrow> adjacency \<Rightarrow> bool" where
  "matched_once adj p = (count_list (ends adj) (fst p) = 1 \<and> count_list (ends adj) (snd p) = 1)"

definition linked :: "('wp, 'sp) Room2D list \<Rightarrow> adjacency \<Rightarrow> bool" where
  "linked rooms p =
     (case p of ((a, j), (b, k)) \<Rightarrow>
        a < length rooms \<and> b < length rooms \<and>
        j < length (boundary_conditions (rooms ! a)) \<and>
        k < length (boundary_conditions (rooms ! b)) \<and>
        boundary_conditions (rooms ! a) ! j = surface_to (rooms ! b) k \<and>
        boundary_conditions (rooms ! b) ! k = surface_to (rooms ! a) j)"

section \<open>Instances of the parameters for running the definitions\<close>

text \<open>
  Modelled from the spec: the window parameters of \<^verbatim>\<open>dragonfly/windowparameter.py\<close>, which
  the spec describes as opaque values with an area-from-segment function and a flip. Two
  kinds suffice to run the definitions: a window of a given area, which is symmetric, and
  a rectangular window given by its offset from the start of the segment, its width and its
  height, which is asymmetric; flipping it mirrors the offset along the segment.
\<close>

datatype wpar = SimpleWindowArea real | RectangularWindow real real real

fun wpar_area :: "wpar \<Rightarrow> segment3 \<Rightarrow> real \<Rightarrow> real" where
  "wpar_area (SimpleWindowArea a) seg h = a"
| "wpar_area (RectangularWindow x w ht) seg h = w * min ht h"

fun wpar_flip :: "wpar \<Rightarrow> real \<Rightarrow> wpar" where
  "wpar_flip (SimpleWindowArea a) l = SimpleWindowArea a"
| "wpar_flip (RectangularWindow x w ht) l = RectangularWindow (l - x - w) w ht"

fun wpar_asymmetric :: "wpar \<Rightarrow> bool" where
  "wpar_asymmetric (SimpleWindowArea a) = False"
| "wpar_asymmetric (RectangularWindow x w ht) = True"

definition windows :: "wpar window_lib" where
  "windows = \<lparr>area_from_segment = wpar_area, flip = wpar_flip, is_asymmetric = wpar_asymmetric\<rparr>"

text \<open>
  The geometry operations as ladybug-geometry computes them. A polygon is clockwise when
  its signed area is negative. Two points are equivalent when each coordinate differs by
  at most the tolerance. Two bounding rectangles overlap when the gap between them is at
  most the tolerance along both axes. The distance from a segment to a point is the
  distance from the point to the closest point of the segment, and a segment of length
  zero raises an AssertionError.
\<close>

definition ladybug_is_equivalent :: "point3 \<Rightarrow> point3 \<Rightarrow> real \<Rightarrow> bool" where
  "ladybug_is_equivalent p q tol =
     (case (p, q) of ((x1, y1, z1), (x2, y2, z2)) \<Rightarrow>
        \<bar>x1 - x2\<bar> \<le> tol \<and> \<bar>y1 - y2\<bar> \<le> tol \<and> \<bar>z1 - z2\<bar> \<le> tol)"

definition ladybug_overlapping_bounding_rect :: "point2 list \<Rightarrow> point2 list \<Rightarrow> real \<Rightarrow> bool" where
  "ladybug_overlapping_bounding_rect polygon1 polygon2 tolerance =
     (let xs1 = map fst polygon1; ys1 = map snd polygon1;
          xs2 = map fst polygon2; ys2 = map snd polygon2;
          min1x = Min (set xs1); max1x = Max (set xs1); min1y = Min (set ys1); max1y = Max (set ys1);
          min2x = Min (set xs2); max2x = Max (set xs2); min2y = Min (set ys2); max2y = Max (set ys2);
          x_gap = \<bar>(min1x + max1x) / 2 - (min2x + max2x) / 2\<bar>
                    - (max1x - min1x) / 2 - (max2x - min2x) / 2;
          y_gap = \<bar>(min1y + max1y) / 2 - (min2y + max2y) / 2\<bar>
                    - (max1y - min1y) / 2 - (max2y - min2y) / 2
      in \<not> (x_gap > tolerance \<or> y_gap > tolerance))"

definition closest_point2d_on_line2d :: "point2 \<Rightarrow> segment2 \<Rightarrow> error + point2" where
  "closest_point2d_on_line2d point seg =
     (case (point, seg) of ((px, py), ((x1, y1), (x2, y2))) \<Rightarrow>
        let vx = x2 - x1; vy = y2 - y1; d = vx * vx + vy * vy in
        if d = 0 then Inl AssertionError
        else let u = ((px - x1) * vx + (py - y1) * vy) / d;
                 u1 = max (min u 1) 0
             in Inr (x1 + u1 * vx, y1 + u1 * vy))"

definition ladybug_distance_to_point :: "segment2 \<Rightarrow> point2 \<Rightarrow> error + real" where
  "ladybug_distance_to_point seg point =
     ebind (closest_point2d_on_line2d point seg) (\<lambda>(cx, cy).
       Inr (sqrt ((cx - fst point)\<^sup>2 + (cy - snd point)\<^sup>2)))"

definition ladybug :: geometry_lib where
  "ladybug = \<lparr>is_clockwise = (\<lambda>ps. polygon_signed_area ps < 0),
              is_equivalent = ladybug_is_equivalent,
              overlapping_bounding_rect = ladybug_overlapping_bounding_rect,
              distance_to_point = ladybug_distance_to_point\<rparr>"

text \<open>
  A polyface as \<^verbatim>\<open>Polyface3D.from_faces\<close> builds it: the vertices of the faces, where a
  vertex within the tolerance of an earlier one is that one, and for each loop of each face
  the indices of its vertices. An edge joins two different consecutive vertices of a loop.
  The polyface is solid when every edge is used exactly twice, in either direction, and an
  edge used once is naked.
\<close>

record polyface =
  vertices :: "point3 list"
  face_indices :: "nat list list list"

fun vertex_index :: "point3 list \<Rightarrow> point3 \<Rightarrow> real \<Rightarrow> nat \<Rightarrow> nat option" where
  "vertex_index [] v tol i = None"
| "vertex_index (vert # verts) v tol i =
     (if ladybug_is_equivalent v vert tol then Some i else vertex_index verts v tol (i + 1))"

fun add_loop :: "real \<Rightarrow> point3 list \<Rightarrow> point3 list \<Rightarrow> nat list \<times> point3 list" where
  "add_loop tol [] verts = ([], verts)"
| "add_loop tol (v # rest) verts =
     (case vertex_index verts v tol 0 of
        Some i \<Rightarrow> (case add_loop tol rest verts of (ind, verts1) \<Rightarrow> (i # ind, verts1))
      | None \<Rightarrow> (case add_loop tol rest (verts @ [v]) of
                   (ind, verts1) \<Rightarrow> (length verts # ind, verts1)))"

fun add_face :: "real \<Rightarrow> vface \<Rightarrow> point3 list \<Rightarrow> nat list list \<times> point3 list" where
  "add_face tol [] verts = ([], verts)"
| "add_face tol (loop # rest) verts =
     (case add_loop tol loop verts of
        (ind, verts1) \<Rightarrow> (case add_face tol rest verts1 of (inds, verts2) \<Rightarrow> (ind # inds, verts2)))"

fun add_faces :: "real \<Rightarrow> vface list \<Rightarrow> point3 list \<Rightarrow> nat list list list \<times> point3 list" where
  "add_faces tol [] verts = ([], verts)"
| "add_faces tol (f # rest) verts =
     (case add_face tol f verts of
        (ind, verts1) \<Rightarrow> (case add_faces tol rest verts1 of (inds, verts2) \<Rightarrow> (ind # inds, verts2)))"

definition polyface_from_faces :: "vface list \<Rightarrow> real \<Rightarrow> polyface" where
  "polyface_from_faces fs tol =
     (case add_faces tol fs [] of (inds, verts) \<Rightarrow> \<lparr>vertices = verts, face_indices = inds\<rparr>)"

definition polyface_edges :: "polyface \<Rightarrow> (nat \<times> nat) list" where
  "polyface_edges pf =
     concat (map (\<lambda>face. concat (map (\<lambda>fi. filter (\<lambda>(a, b). a \<noteq> b) (ring_segments fi)) face))
               (face_indices pf))"

definition edge_uses :: "(nat \<times> nat) list \<Rightarrow> nat \<times> nat \<Rightarrow> nat" where
  "edge_uses es e = length (filter (\<lambda>x. x = e \<or> x = (snd e, fst e)) es)"

definition polyface_is_solid :: "polyface \<Rightarrow> bool" where
  "polyface_is_solid pf = (let es = polyface_edges pf in list_all (\<lambda>e. edge_uses es e = 2) es)"

definition polyface_naked_edges :: "polyface \<Rightarrow> nat" where
  "polyface_naked_edges pf =
     (let es = polyface_edges pf in length (filter (\<lambda>e. edge_uses es e = 1) es))"

text \<open>
  The library on rectangles with sides along the axes. A polygon contains another one
  (relationship 1) when it holds all its vertices within the tolerance, lies outside of it
  (relationship -1) when their bounding rectangles do not overlap, and overlaps it
  (relationship 0) otherwise. A point on an edge within the tolerance has relationship 0, a
  point inside 1 and a point outside -1. A rectangle has no colinear vertices to remove.
  The extrusion of a face has the flipped face, one wall per segment and the face moved up.
  The difference of a face with a list of faces that do not overlap it is the face. The
  instance does not intersect polygons: \<open>roof_caps\<close> and \<open>crossing_wall\<close> fail, and the
  merge of overlapping edges and the three repairs leave a polyface as it is.
\<close>

definition in_bounds :: "point2 list \<Rightarrow> point2 \<Rightarrow> real \<Rightarrow> bool" where
  "in_bounds poly p tol =
     (Min (set (map fst poly)) - tol \<le> fst p \<and> fst p \<le> Max (set (map fst poly)) + tol \<and>
      Min (set (map snd poly)) - tol \<le> snd p \<and> snd p \<le> Max (set (map snd poly)) + tol)"

definition rect_polygon_relationship :: "point2 list \<Rightarrow> point2 list \<Rightarrow> real \<Rightarrow> int" where
  "rect_polygon_relationship this other tol =
     (if \<not> ladybug_overlapping_bounding_rect this other tol then - 1
      else if list_all (\<lambda>p. in_bounds this p tol) other then 1
      else 0)"

definition rect_point_relationship :: "point2 list \<Rightarrow> point2 \<Rightarrow> real \<Rightarrow> int" where
  "rect_point_relationship poly p tol =
     (if \<not> in_bounds poly p tol then - 1
      else if in_bounds poly p (- tol) then 1
      else 0)"

definition offset_faces :: "Face3D \<Rightarrow> real \<Rightarrow> vface list" where
  "offset_faces f h =
     (let up = (\<lambda>(x, y, z). (x, y, z + h)) in
      [rev (boundary f) # map rev (holes f)]
      @ map (\<lambda>(p1, p2). [[p1, p2, up p2, up p1]])
          (boundary_segments f @ concat (hole_segments f))
      @ [map (map up) (boundary f # holes f)])"

definition flat_area :: "vface \<Rightarrow> real" where
  "flat_area f = polygon_area (map to_2d (hd f)) - sum_list (map (\<lambda>l. polygon_area (map to_2d l)) (tl f))"

definition rectangles :: "polyface volume_lib" where
  "rectangles =
     \<lparr>polygon_relationship = rect_polygon_relationship,
      point_relationship = rect_point_relationship,
      from_faces = polyface_from_faces,
      from_offset_face = (\<lambda>f h. polyface_from_faces (offset_faces f h) 0),
      is_solid = polyface_is_solid,
      naked_edges = polyface_naked_edges,
      merge_overlapping_edges = (\<lambda>pf tol ang_tol. pf),
      separate_disconnected_faces = (\<lambda>n pf roof_face_i tol. (pf, roof_face_i, None)),
      patch_vertical_gaps = (\<lambda>pf roof_face_i tol. (pf, roof_face_i)),
      cap_planar_holes = (\<lambda>pf roof_face_i tol. (pf, roof_face_i)),
      remove_colinear_vertices = (\<lambda>poly tol. if length poly < 3 then None else Some poly),
      face_remove_colinear_vertices = (\<lambda>rf tol. if length (hd (fst rf)) < 3 then None else Some rf),
      roof_caps = (\<lambda>room_polys all_room_poly holed rf_poly rf_plane tol. CapFail),
      coplanar_difference = (\<lambda>f faces tol ang_tol. [f]),
      face_area = flat_area,
      crossing_wall = (\<lambda>current other pt1 pt2 seg tol. None)\<rparr>"

section \<open>The invariant of the per-segment arrays\<close>

text \<open>
  The four per-segment arrays, as the properties of the class return them, have one item
  per segment of the floor plate, and the stored segment count is that number.
\<close>

definition arrays_consistent :: "('wp, 'sp) Room2D \<Rightarrow> bool" where
  "arrays_consistent r =
     (segment_count r = length (floor_segments r) \<and>
      length (boundary_conditions r) = segment_count r \<and>
      length (window_parameters r) = segment_count r \<and>
      length (shading_parameters r) = segment_count r \<and>
      length (fst (get_air_boundaries r)) = segment_count r)"


text \<open>
  Two states of a room that differ at most in the contents of the boundary conditions and
  of the window parameters.
\<close>

definition same_frame :: "('wp, 'sp) Room2D \<Rightarrow> ('wp, 'sp) Room2D \<Rightarrow> bool" where
  "same_frame r r' =
     (ident r' = ident r \<and> floor_geometry r' = floor_geometry r \<and>
      segment_count r' = segment_count r \<and>
      floor_to_ceiling_height r' = floor_to_ceiling_height r \<and>
      shading_parameters r' = shading_parameters r \<and> air_boundaries r' = air_boundaries r \<and>
      length (boundary_conditions r') = length (boundary_conditions r) \<and>
      length (window_parameters r') = length (window_parameters r))"

section \<open>Rooms whose walls match one to one\<close>









section \<open>Rooms to run the definitions on\<close>

text \<open>A room of 4 by 3 with its floor one unit below the ground plane.\<close>

definition basement :: Face3D where
  "basement = \<lparr>boundary = [(0, 0, -1), (4, 0, -1), (4, 3, -1), (0, 3, -1)], holes = [], normal_z = 1\<rparr>"

definition basement_room :: "(wpar, unit) Room2D" where
  "basement_room =
     \<lparr>ident = ''Basement'', floor_geometry = basement, segment_count = 4,
      floor_to_ceiling_height = 3, boundary_conditions = [Outdoors, Outdoors, Outdoors, Outdoors],
      window_parameters = [None, None, None, None], shading_parameters = [None, None, None, None],
      air_boundaries = None, is_ground_contact = False, is_top_exposed = False\<rparr>"



text \<open>
  Two square rooms of 5 by 5 that share the wall at x = 5: segment 1 of the first room and
  segment 3 of the second. \<open>plain_room\<close> builds a room of height 3 with Outdoors on every
  segment and the given window parameters.
\<close>

definition square_a :: Face3D where
  "square_a = \<lparr>boundary = [(0, 0, 0), (5, 0, 0), (5, 5, 0), (0, 5, 0)], holes = [], normal_z = 1\<rparr>"

definition square_b :: Face3D where
  "square_b = \<lparr>boundary = [(5, 0, 0), (10, 0, 0), (10, 5, 0), (5, 5, 0)], holes = [], normal_z = 1\<rparr>"

definition plain_room :: "string \<Rightarrow> Face3D \<Rightarrow> wpar option list \<Rightarrow> (wpar, unit) Room2D" where
  "plain_room name geo wps =
     \<lparr>ident = name, floor_geometry = geo, segment_count = length (boundary geo),
      floor_to_ceiling_height = 3,
      boundary_conditions = replicate (length (boundary geo)) Outdoors,
      window_parameters = wps,
      shading_parameters = replicate (length (boundary geo)) None,
      air_boundaries = None, is_ground_contact = False, is_top_exposed = False\<rparr>"

definition win5_room :: "(wpar, unit) Room2D" where
  "win5_room = plain_room ''A'' square_a [None, Some (SimpleWindowArea 5), None, None]"

definition win8_room :: "(wpar, unit) Room2D" where
  "win8_room = plain_room ''B'' square_b [None, None, None, Some (SimpleWindowArea 8)]"

definition rect_room_a :: "(wpar, unit) Room2D" where
  "rect_room_a = plain_room ''A'' square_a [None, Some (RectangularWindow 1 2 1), None, None]"

definition rect_room_b :: "(wpar, unit) Room2D" where
  "rect_room_b = plain_room ''B'' square_b [None, None, None, Some (RectangularWindow (1/2) 1 2)]"



text \<open>
  A room of 10 by 5 with two rooms of 5 by 5 along its southern wall: segment 0 of the
  first room runs along segment 2 of each of the other two.
\<close>

definition long_a :: Face3D where
  "long_a = \<lparr>boundary = [(0, 0, 0), (10, 0, 0), (10, 5, 0), (0, 5, 0)], holes = [], normal_z = 1\<rparr>"

definition south_west :: Face3D where
  "south_west = \<lparr>boundary = [(0, -5, 0), (5, -5, 0), (5, 0, 0), (0, 0, 0)], holes = [], normal_z = 1\<rparr>"

definition south_east :: Face3D where
  "south_east = \<lparr>boundary = [(5, -5, 0), (10, -5, 0), (10, 0, 0), (5, 0, 0)], holes = [], normal_z = 1\<rparr>"

definition three_rooms :: "(wpar, unit) Room2D list" where
  "three_rooms = [plain_room ''A'' long_a [None, None, None, None],
                  plain_room ''B'' south_west [None, None, None, None],
                  plain_room ''C'' south_east [None, None, None, None]]"

text \<open>The three rooms as a run of \<^verbatim>\<open>solve_adjacency\<close> leaves them.\<close>

definition three_rooms_solved_value :: "(wpar, unit) Room2D list" where
  "three_rooms_solved_value =
     [(plain_room ''A'' long_a [None, None, None, None])
        \<lparr>boundary_conditions := [Surface ''C..Face3'' ''C'', Outdoors, Outdoors, Outdoors],
         air_boundaries := Some [False, False, False, False]\<rparr>,
      (plain_room ''B'' south_west [None, None, None, None])
        \<lparr>boundary_conditions := [Outdoors, Surface ''C..Face4'' ''C'', Surface ''A..Face1'' ''A'',
                                 Outdoors],
         air_boundaries := Some [False, False, False, False]\<rparr>,
      (plain_room ''C'' south_east [None, None, None, None])
        \<lparr>boundary_conditions := [Outdoors, Outdoors, Surface ''A..Face1'' ''A'',
                                 Surface ''B..Face2'' ''B''],
         air_boundaries := Some [False, False, False, False]\<rparr>]"






text \<open>
  A room on the unit square and one on a rectangle of 2 by 1, both 3 high with the floor at
  \<open>z = 0\<close>. One roof polygon covers both; its plane is a shed roof above the ceiling
  (\<open>z = y + 3\<close>), or a plane through the south edge of the floor (\<open>z = y\<close>), or a plane
  through the west edge of the floor (\<open>z = x\<close>). A further roof polygon lies far from the
  rooms.
\<close>

definition unit_square :: Face3D where
  "unit_square = \<lparr>boundary = [(0, 0, 0), (1, 0, 0), (1, 1, 0), (0, 1, 0)], holes = [], normal_z = 1\<rparr>"

definition two_by_one :: Face3D where
  "two_by_one = \<lparr>boundary = [(0, 0, 0), (2, 0, 0), (2, 1, 0), (0, 1, 0)], holes = [], normal_z = 1\<rparr>"

definition attic :: "(wpar, unit) Room2D" where
  "attic = plain_room ''Attic'' unit_square (replicate 4 None)"

definition loft :: "(wpar, unit) Room2D" where
  "loft = plain_room ''Loft'' two_by_one (replicate 4 None)"

definition cover :: "point2 list" where
  "cover = [(- 1, - 1), (3, - 1), (3, 2), (- 1, 2)]"




definition far_roof :: roof_spec where
  "far_roof = [([(10, 10), (11, 10), (11, 11), (10, 11)], (0, 0, 5))]"




section \<open>Helper facts\<close>


lemma ebind_Inr_iff: "(ebind m f = Inr y) = (\<exists>x. m = Inr x \<and> f x = Inr y)"
  by (cases m) (simp_all add: ebind_def)

lemma ebind_Inr [simp]: "ebind (Inr x) f = f x"
  by (simp add: ebind_def)

lemma ebind_Inl [simp]: "ebind (Inl e) f = Inl e"
  by (simp add: ebind_def)

lemma Face3D_init_Inr:
  "Face3D_init G e b nz h = Inr f \<Longrightarrow>
     boundary f = (if e \<and> is_clockwise G (plane_xy nz b) then rev b else b) \<and>
     length (boundary f) = length b \<and> holes f = h \<and> normal_z f = nz \<and> 3 \<le> length b"
  by (auto simp: Face3D_init_def split: if_splits)

lemma length_ring_segments [simp]: "length (ring_segments ps) = length ps"
  by (simp add: ring_segments_def)

lemma set_floor_to_ceiling_height_Inr:
  "set_floor_to_ceiling_height v r = Inr r' \<Longrightarrow> r' = r\<lparr>floor_to_ceiling_height := v\<rparr> \<and> 0 < v"
  by (auto simp: set_floor_to_ceiling_height_def split: if_splits)

lemma set_window_parameters_Inr:
  "set_window_parameters v r = Inr r' \<Longrightarrow>
     \<exists>w. r' = r\<lparr>window_parameters := w\<rparr> \<and> length w = segment_count r"
  by (auto simp: set_window_parameters_def check_wall_assigned_object_def len_def ebind_Inr_iff
      split: option.splits if_splits)

lemma set_shading_parameters_Inr:
  "set_shading_parameters v r = Inr r' \<Longrightarrow>
     \<exists>w. r' = r\<lparr>shading_parameters := w\<rparr> \<and> length w = segment_count r"
  by (auto simp: set_shading_parameters_def check_wall_assigned_object_def len_def ebind_Inr_iff
      split: option.splits if_splits)

lemma flip_wall_assigned_objects_Inr:
  assumes "flip_wall_assigned_objects W g b w s = Inr (b', w', s')"
    and "length b = n" "length w = n" "length s = n"
    and "n = length (boundary g) + length (concat (holes g))"
  shows "length b' = n \<and> length w' = n \<and> length s' = n \<and> set b' \<subseteq> set b"
  using assms
  by (auto simp: flip_wall_assigned_objects_def Let_def boundary_segments_def has_holes_def
      split: if_splits dest: in_set_takeD in_set_dropD)


lemma length_floor_segments:
  "length (floor_segments r) =
     length (boundary (floor_geometry r)) + length (concat (holes (floor_geometry r)))"
  by (simp add: floor_segments_def boundary_segments_def hole_segments_def length_concat comp_def)

lemma default_bc_update [simp]:
  "default_boundary_condition (r\<lparr>boundary_conditions := b\<rparr>) = default_boundary_condition r"
  "default_boundary_condition (r\<lparr>window_parameters := w\<rparr>) = default_boundary_condition r"
  "default_boundary_condition (r\<lparr>shading_parameters := s\<rparr>) = default_boundary_condition r"
  "default_boundary_condition (r\<lparr>air_boundaries := a\<rparr>) = default_boundary_condition r"
  "default_boundary_condition (r\<lparr>is_ground_contact := g\<rparr>) = default_boundary_condition r"
  "default_boundary_condition (r\<lparr>is_top_exposed := t\<rparr>) = default_boundary_condition r"
  by (simp_all add: default_boundary_condition_def ceiling_height_def floor_height_def)

lemma floor_segments_update [simp]:
  "floor_segments (r\<lparr>boundary_conditions := b\<rparr>) = floor_segments r"
  "floor_segments (r\<lparr>window_parameters := w\<rparr>) = floor_segments r"
  "floor_segments (r\<lparr>shading_parameters := s\<rparr>) = floor_segments r"
  "floor_segments (r\<lparr>air_boundaries := a\<rparr>) = floor_segments r"
  "floor_segments (r\<lparr>is_ground_contact := g\<rparr>) = floor_segments r"
  "floor_segments (r\<lparr>is_top_exposed := t\<rparr>) = floor_segments r"
  "floor_segments (r\<lparr>floor_to_ceiling_height := h\<rparr>) = floor_segments r"
  "floor_segments (r\<lparr>segment_count := n\<rparr>) = floor_segments r"
  by (simp_all add: floor_segments_def)

lemma replicate_subset:
  "length b' = n \<Longrightarrow> set b' \<subseteq> set (replicate n x) \<Longrightarrow> b' = replicate n x"
  by (metis replicate_eqI set_replicate_conv_if empty_iff singletonD subsetD)



lemma init_geometry_facts:
  "segment_count (init_geometry i f) = length (boundary f) + length (concat (holes f))"
  "floor_geometry (init_geometry i f) = f"
  "air_boundaries (init_geometry i f) = None"
  by (simp_all add: init_geometry_def Let_def length_floor_segments)

lemma set_floor_to_ceiling_height_facts:
  assumes "set_floor_to_ceiling_height v r = Inr r'"
  shows "0 < v" "floor_to_ceiling_height r' = v" "segment_count r' = segment_count r"
    "floor_geometry r' = floor_geometry r" "air_boundaries r' = air_boundaries r"
    "boundary_conditions r' = boundary_conditions r" "window_parameters r' = window_parameters r"
    "shading_parameters r' = shading_parameters r"
  using assms by (auto simp: set_floor_to_ceiling_height_def split: if_splits)

lemma init_boundary_conditions_facts:
  assumes "init_boundary_conditions b r = Inr r'"
  shows "length (boundary_conditions r') = segment_count r"
    "b = None \<Longrightarrow> boundary_conditions r' = replicate (segment_count r) (default_boundary_condition r)"
    "segment_count r' = segment_count r" "floor_geometry r' = floor_geometry r"
    "floor_to_ceiling_height r' = floor_to_ceiling_height r"
    "air_boundaries r' = air_boundaries r"
  using assms
  by (auto simp: init_boundary_conditions_def check_wall_assigned_object_def len_def ebind_Inr_iff
      split: option.splits if_splits)

lemma set_window_parameters_facts:
  assumes "set_window_parameters v r = Inr r'"
  shows "length (window_parameters r') = segment_count r"
    "segment_count r' = segment_count r" "floor_geometry r' = floor_geometry r"
    "floor_to_ceiling_height r' = floor_to_ceiling_height r"
    "air_boundaries r' = air_boundaries r" "boundary_conditions r' = boundary_conditions r"
    "shading_parameters r' = shading_parameters r"
  using assms
  by (auto simp: set_window_parameters_def check_wall_assigned_object_def len_def ebind_Inr_iff
      split: option.splits if_splits)

lemma set_shading_parameters_facts:
  assumes "set_shading_parameters v r = Inr r'"
  shows "length (shading_parameters r') = segment_count r"
    "segment_count r' = segment_count r" "floor_geometry r' = floor_geometry r"
    "floor_to_ceiling_height r' = floor_to_ceiling_height r"
    "air_boundaries r' = air_boundaries r" "boundary_conditions r' = boundary_conditions r"
    "window_parameters r' = window_parameters r"
  using assms
  by (auto simp: set_shading_parameters_def check_wall_assigned_object_def len_def ebind_Inr_iff
      split: option.splits if_splits)

lemma init_flipped_facts:
  assumes "init_flipped W g r = Inr r'"
    and "length (boundary_conditions r) = n" "length (window_parameters r) = n"
    and "length (shading_parameters r) = n"
    and "n = length (boundary g) + length (concat (holes g))"
  shows "length (boundary_conditions r') = n" "length (window_parameters r') = n"
    "length (shading_parameters r') = n" "set (boundary_conditions r') \<subseteq> set (boundary_conditions r)"
    "segment_count r' = segment_count r" "floor_geometry r' = floor_geometry r"
    "floor_to_ceiling_height r' = floor_to_ceiling_height r"
  using assms flip_wall_assigned_objects_Inr[of W g "boundary_conditions r" "window_parameters r" "shading_parameters r" _ _ _ n]
  by (auto simp: init_flipped_def ebind_Inr_iff split: if_splits)

lemma Room2D_init_stages:
  assumes "Room2D_init G W i fg ftc bcs_in wps shds gc te tol = Inr r"
  obtains f r1 r2 r3 r4 r5 where
    "valid_identifier i"
    "Face3D_init G True (boundary (if normal_z fg \<ge> 0 then fg else face_flip fg)) 1
        (holes (if normal_z fg \<ge> 0 then fg else face_flip fg)) = Inr f"
    "set_floor_to_ceiling_height ftc (init_geometry i f) = Inr r1"
    "init_boundary_conditions bcs_in r1 = Inr r2"
    "set_window_parameters wps r2 = Inr r3"
    "set_shading_parameters shds r3 = Inr r4"
    "init_flipped W fg r4 = Inr r5"
    "r = r5\<lparr>is_ground_contact := gc, is_top_exposed := te, air_boundaries := None\<rparr>"
  using assms unfolding Room2D_init_def Let_def
  by (auto simp: ebind_Inr_iff split: if_splits)


lemma Room2D_init_Inr:
  assumes "Room2D_init G W i fg ftc bcs_in wps shds gc te tol = Inr r"
  shows "arrays_consistent r" "air_boundaries r = None" "0 < ftc" "floor_to_ceiling_height r = ftc"
    "boundary (floor_geometry r) =
       (let b = (if normal_z fg \<ge> 0 then boundary fg else rev (boundary fg))
        in if is_clockwise G (plane_xy 1 b) then rev b else b)"
    "holes (floor_geometry r) = holes fg"
    "3 \<le> length (boundary fg)"
    "bcs_in = None \<Longrightarrow>
       boundary_conditions r = replicate (segment_count r) (default_boundary_condition r)"
    "valid_identifier i"
proof -
  define up where "up = (if normal_z fg \<ge> 0 then fg else face_flip fg)"
  from assms obtain f r1 r2 r3 r4 r5 where
    vi: "valid_identifier i" and
    f: "Face3D_init G True (boundary up) 1 (holes up) = Inr f"
    and r1: "set_floor_to_ceiling_height ftc (init_geometry i f) = Inr r1"
    and r2: "init_boundary_conditions bcs_in r1 = Inr r2"
    and r3: "set_window_parameters wps r2 = Inr r3"
    and r4: "set_shading_parameters shds r3 = Inr r4"
    and r5: "init_flipped W fg r4 = Inr r5"
    and r: "r = r5\<lparr>is_ground_contact := gc, is_top_exposed := te, air_boundaries := None\<rparr>"
    unfolding up_def by (rule Room2D_init_stages)
  note F = Face3D_init_Inr[OF f]
  note G = init_geometry_facts[of i f]
  note R1 = set_floor_to_ceiling_height_facts[OF r1]
  note R2 = init_boundary_conditions_facts[OF r2]
  note R3 = set_window_parameters_facts[OF r3]
  note R4 = set_shading_parameters_facts[OF r4]
  have up: "length (boundary up) = length (boundary fg)"
    "length (concat (holes up)) = length (concat (holes fg))"
    by (simp_all add: up_def face_flip_def)
  define n where "n = length (boundary fg) + length (concat (holes fg))"
  have sc: "segment_count r4 = n"
    using F G R1 R2 R3 R4 up by (simp add: n_def split: if_splits)
  have l4: "length (boundary_conditions r4) = n" "length (window_parameters r4) = n"
    "length (shading_parameters r4) = n"
    using F G R1 R2 R3 R4 up by (simp_all add: n_def split: if_splits)
  note R5 = init_flipped_facts[OF r5 l4 n_def]
  have fgeo: "floor_geometry r = f" using r R5 R4 R3 R2 R1 G by simp
  show "arrays_consistent r"
    using r R5 sc fgeo F up
    by (simp add: arrays_consistent_def get_air_boundaries_def len_def length_floor_segments n_def)
  show "air_boundaries r = None" using r by simp
  show "0 < ftc" by (rule R1)
  show "floor_to_ceiling_height r = ftc" using r R5 R4 R3 R2 R1 by simp
  show "boundary (floor_geometry r) =
       (let b = (if normal_z fg \<ge> 0 then boundary fg else rev (boundary fg))
        in if is_clockwise G (plane_xy 1 b) then rev b else b)"
    using fgeo F by (simp add: up_def face_flip_def Let_def)
  show "holes (floor_geometry r) = holes fg"
    using fgeo F by (simp add: up_def face_flip_def)
  show "3 \<le> length (boundary fg)" using F up by simp
  show "valid_identifier i" by (rule vi)
  show "boundary_conditions r = replicate (segment_count r) (default_boundary_condition r)"
    if "bcs_in = None"
  proof -
    have d: "default_boundary_condition r = default_boundary_condition r1"
      using r R5 R4 R3 R2 by (simp add: default_boundary_condition_def ceiling_height_def floor_height_def)
    have "boundary_conditions r4 = replicate n (default_boundary_condition r1)"
      using R2(2)[OF that] R3 R4 sc R2(3) by simp
    with R5(1,4) have "boundary_conditions r5 = replicate n (default_boundary_condition r1)"
      by (intro replicate_subset) simp_all
    with r d R5 sc show ?thesis by simp
  qed
qed

lemmas init_defs = Room2D_init_def Face3D_init_def plane_xy_def valid_identifier_def
  legal_characters_def init_geometry_def init_boundary_conditions_def
  init_flipped_def set_floor_to_ceiling_height_def set_window_parameters_def
  set_shading_parameters_def check_wall_assigned_object_def len_def default_boundary_condition_def
  ceiling_height_def floor_height_def pz_def floor_segments_def boundary_segments_def
  hole_segments_def ring_segments_def horizontal_within_def Let_def

lemma basement_room_eval:
  "Room2D_init ladybug windows ''Basement'' basement 3 None None None False False 0 = Inr basement_room"
  by (simp add: init_defs basement_def basement_room_def numeral_eq_Suc ladybug_def
      polygon_signed_area_def)

section \<open>Default boundary conditions\<close>

text \<open>
  Claim C8 says that a room built without boundary conditions gets Outdoors on every
  segment unless its floor is below the ground plane z = 0, and Ground in that case. The
  constructor decides by the ceiling height instead. A room with its floor at -1 and a
  height of 3 has its floor below the ground plane, and every segment is Outdoors.
\<close>

theorem default_bc_floor_below_ground_counterexample:
  "map_sum id floor_height
     (Room2D_init ladybug windows ''Basement'' basement 3 None None (None :: unit option list option)
        False False 0) = Inr (- 1) \<and>
   map_sum id boundary_conditions
     (Room2D_init ladybug windows ''Basement'' basement 3 None None (None :: unit option list option)
        False False 0) = Inr [Outdoors, Outdoors, Outdoors, Outdoors]"
  by (simp add: basement_room_eval) (simp add: floor_height_def basement_def basement_room_def pz_def)

text \<open>
  Claim C8, amended: a room built without boundary conditions gets, on every segment,
  Outdoors when its ceiling height (floor height plus floor-to-ceiling height) is above
  zero, and Ground otherwise.
\<close>

theorem default_bc_by_ceiling_height:
  assumes "Room2D_init G W i fg ftc None wps shds gc te tol = Inr r"
  shows "boundary_conditions r =
           replicate (length (floor_segments r)) (if ceiling_height r > 0 then Outdoors else Ground)"
  using Room2D_init_Inr(1,8)[OF assms]
  by (simp add: arrays_consistent_def default_boundary_condition_def)

theorem default_bc_by_ceiling_height_witness:
  "Room2D_init ladybug windows ''Basement'' basement 3 None None None False False 0 = Inr basement_room \<and>
   boundary_conditions basement_room =
     replicate (length (floor_segments basement_room))
       (if ceiling_height basement_room > 0 then Outdoors else Ground)"
  using default_bc_by_ceiling_height[OF basement_room_eval] basement_room_eval by simp

section \<open>Construction from a polygon\<close>

lemma plane_xy_up [simp]: "plane_xy 1 (map (xy_to_xyz fh) p) = p"
  by (simp add: plane_xy_def xy_to_xyz_def comp_def)






section \<open>Window conflicts between adjacent segments\<close>


text \<open>
  Claim C10: when both segments carry a window parameter and the two computed areas are
  equal, \<^verbatim>\<open>set_adjacency\<close> with conflict resolution keeps the parameter of the second
  room: the segment of the calling room receives it, flipped by that segment's length when
  it is asymmetric, and the segment of the second room keeps its parameter.
\<close>

theorem set_adjacency_tie_keeps_second:
  fixes W :: "'wp window_lib" and self other :: "('wp, 'sp) Room2D" and j k :: nat
  defines "h \<equiv> min (floor_to_ceiling_height self) (floor_to_ceiling_height other)"
    and "res \<equiv> set_adjacency W self other j k True"
  assumes "segment_in_range self j" and "segment_in_range other k"
    and "window_parameters self ! j = Some w1" and "window_parameters other ! k = Some w2"
    and "area_from_segment W w1 (floor_segments self ! j) h
           = area_from_segment W w2 (floor_segments other ! k) h"
  shows "fst res = None \<and>
         window_parameters (fst (snd res)) ! j =
           flip_if_asymmetric W (Some w2) (seg_length (floor_segments self ! j)) \<and>
         window_parameters (snd (snd res)) ! k = Some w2"
  using assms(3-7) unfolding res_def h_def segment_in_range_def
  by (auto simp: set_adjacency_def Let_def area_or_zero_def
      asymmetric_opt_def flip_if_asymmetric_def split: if_splits)

lemma sqrt_25 [simp]: "sqrt 25 = 5"
  by (rule real_sqrt_unique) simp_all

lemmas room_eval = plain_room_def square_a_def square_b_def floor_segments_def
  boundary_segments_def hole_segments_def ring_segments_def windows_def
  area_or_zero_def flip_if_asymmetric_def asymmetric_opt_def seg_length_def



lemma win_eval:
  "set_adjacency windows win5_room win8_room 1 3 True =
    (None, win5_room\<lparr>boundary_conditions := [Outdoors, surface_to win8_room 3, Outdoors, Outdoors],
                      window_parameters := [None, Some (SimpleWindowArea 8), None, None]\<rparr>,
           win8_room\<lparr>boundary_conditions := [Outdoors, Outdoors, Outdoors, surface_to win5_room 1]\<rparr>)"
  by (simp add: set_adjacency_def Let_def win5_room_def win8_room_def room_eval numeral_eq_Suc)



theorem set_adjacency_tie_keeps_second_witness:
  "segment_in_range rect_room_a 1 \<and> segment_in_range rect_room_b 3 \<and>
   window_parameters rect_room_a ! 1 = Some (RectangularWindow 1 2 1) \<and>
   window_parameters rect_room_b ! 3 = Some (RectangularWindow (1/2) 1 2) \<and>
   fst (set_adjacency windows rect_room_a rect_room_b 1 3 True) = None \<and>
   window_parameters (fst (snd (set_adjacency windows rect_room_a rect_room_b 1 3 True))) ! 1
     = Some (RectangularWindow (7/2) 1 2) \<and>
   window_parameters (snd (snd (set_adjacency windows rect_room_a rect_room_b 1 3 True))) ! 3
     = Some (RectangularWindow (1/2) 1 2)"
proof -
  have a: "segment_in_range rect_room_a 1"
    by (simp add: segment_in_range_def rect_room_a_def room_eval)
  have b: "segment_in_range rect_room_b 3"
    by (simp add: segment_in_range_def rect_room_b_def room_eval)
  have w1: "window_parameters rect_room_a ! 1 = Some (RectangularWindow 1 2 1)"
    by (simp add: rect_room_a_def plain_room_def)
  have w2: "window_parameters rect_room_b ! 3 = Some (RectangularWindow (1/2) 1 2)"
    by (simp add: rect_room_b_def plain_room_def)
  have eq: "area_from_segment windows (RectangularWindow 1 2 1) (floor_segments rect_room_a ! 1)
              (min (floor_to_ceiling_height rect_room_a) (floor_to_ceiling_height rect_room_b))
          = area_from_segment windows (RectangularWindow (1/2) 1 2) (floor_segments rect_room_b ! 3)
              (min (floor_to_ceiling_height rect_room_a) (floor_to_ceiling_height rect_room_b))"
    by (simp add: windows_def rect_room_a_def rect_room_b_def plain_room_def)
  have f: "flip_if_asymmetric windows (Some (RectangularWindow (1/2) 1 2))
             (seg_length (floor_segments rect_room_a ! 1)) = Some (RectangularWindow (7/2) 1 2)"
    by (simp add: rect_room_a_def room_eval)
  from set_adjacency_tie_keeps_second[OF a b w1 w2 eq] a b w1 w2 f
  show ?thesis by simp
qed

section \<open>The per-segment arrays stay consistent\<close>

lemma dedupe_ring_lengths:
  "dedupe_ring G tol r ea off i segs = Inr (pts, b, w, s, a, rem) \<Longrightarrow>
     length b = length pts \<and> length w = length pts \<and> length s = length pts \<and> length a = length pts"
proof (induction segs arbitrary: i pts b w s a rem)
  case Nil
  then show ?case by simp
next
  case (Cons x segs)
  obtain prev vert where x: "x = (prev, vert)" by (cases x)
  from Cons.prems show ?case
    unfolding x
    by (auto simp: ebind_Inr_iff split: if_splits dest!: Cons.IH)
qed

lemma dedupe_holes_lengths:
  "dedupe_holes G tol r ea n hs = Inr (nh, b, w, s, a, rem) \<Longrightarrow>
     length b = length (concat nh) \<and> length w = length (concat nh) \<and>
     length s = length (concat nh) \<and> length a = length (concat nh)"
proof (induction hs arbitrary: n nh b w s a rem)
  case Nil
  then show ?case by simp
next
  case (Cons h hs)
  from Cons.prems show ?case
    by (auto simp: ebind_Inr_iff split: if_splits dest!: Cons.IH dedupe_ring_lengths)
qed

lemma arrays_consistent_get_air_boundaries:
  "arrays_consistent r \<Longrightarrow> arrays_consistent (snd (get_air_boundaries r))"
  by (auto simp: arrays_consistent_def get_air_boundaries_def len_def split: option.splits)

lemma reraise_Inr_iff:
  "((case x of Inl e \<Rightarrow> Inl e' | Inr f \<Rightarrow> Inr f) = Inr y) = (x = Inr y)"
  by (cases x) simp_all

lemma deduped_room_consistent:
  assumes "deduped_room G tol r0 ea = Inr (r1, rem)"
  shows "arrays_consistent r1"
  using assms unfolding deduped_room_def Let_def
  by (auto simp: ebind_Inr_iff reraise_Inr_iff arrays_consistent_def get_air_boundaries_def
      length_floor_segments
      split: if_splits dest!: dedupe_ring_lengths dedupe_holes_lengths Face3D_init_Inr)

lemma remove_duplicate_vertices_consistent:
  assumes "arrays_consistent r"
  shows "arrays_consistent (snd (remove_duplicate_vertices G tol r))"
proof -
  obtain ea r0 where g: "get_air_boundaries r = (ea, r0)" by (cases "get_air_boundaries r")
  have r0: "arrays_consistent r0"
    using arrays_consistent_get_air_boundaries[OF assms] g by simp
  show ?thesis
  proof (cases "deduped_room G tol r0 ea")
    case (Inl e)
    then show ?thesis using r0 by (simp add: remove_duplicate_vertices_def g)
  next
    case (Inr x)
    then show ?thesis
      using deduped_room_consistent[of G tol r0 ea "fst x" "snd x"]
      by (cases x) (simp add: remove_duplicate_vertices_def g)
  qed
qed










lemma same_frame_refl [simp]: "same_frame r r"
  by (simp add: same_frame_def)

lemma same_frame_trans: "same_frame a b \<Longrightarrow> same_frame b c \<Longrightarrow> same_frame a c"
  by (simp add: same_frame_def)

lemma same_frame_consistent: "same_frame r r' \<Longrightarrow> arrays_consistent r \<Longrightarrow> arrays_consistent r'"
  by (simp add: same_frame_def arrays_consistent_def get_air_boundaries_def len_def
      floor_segments_def split: option.splits)

lemma set_adjacency_frame:
  "same_frame r1 (fst (snd (set_adjacency W r1 r2 j k rwc)))"
  "same_frame r2 (snd (snd (set_adjacency W r1 r2 j k rwc)))"
  by (simp_all add: set_adjacency_def Let_def same_frame_def)





lemmas dedupe_eval = remove_duplicate_vertices_def get_air_boundaries_def deduped_room_def
  ladybug_def ladybug_is_equivalent_def Face3D_init_def plane_xy_def polygon_signed_area_def
  ring_segments_def has_holes_def len_def Let_def




section \<open>Adjacency solving\<close>

lemma adj_steps_refl [simp]: "adj_steps W s s"
  by (simp add: adj_steps_def)

lemma adj_steps_trans: "adj_steps W a b \<Longrightarrow> adj_steps W b c \<Longrightarrow> adj_steps W a c"
  by (simp add: adj_steps_def)

lemma adj_steps_step: "adj_step W a b \<Longrightarrow> adj_steps W a b"
  by (simp add: adj_steps_def)

lemma segment_in_range_consistent:
  "arrays_consistent r \<Longrightarrow> segment_in_range r j = (j < length (floor_segments r))"
  by (auto simp: arrays_consistent_def segment_in_range_def)

lemma set_adjacency_True:
  assumes "segment_in_range r1 j" "segment_in_range r2 k"
  shows "fst (set_adjacency W r1 r2 j k True) = None"
    and "boundary_conditions (fst (snd (set_adjacency W r1 r2 j k True)))
           = (boundary_conditions r1)[j := surface_to r2 k]"
    and "boundary_conditions (snd (snd (set_adjacency W r1 r2 j k True)))
           = (boundary_conditions r2)[k := surface_to r1 j]"
  using assms
  by (simp_all add: set_adjacency_def Let_def segment_in_range_def)

lemma same_frame_list_update:
  assumes "list_all2 same_frame rooms rooms" "i < length rooms" "same_frame (rooms ! i) r"
  shows "list_all2 same_frame rooms (rooms[i := r])"
  using assms by (simp add: list_all2_conv_all_nth nth_list_update)

lemma adj_step_frame:
  assumes "adj_step W (rooms, adj) (rooms', adj')"
  shows "list_all2 same_frame rooms rooms'"
  using assms
proof cases
  case (step i i2 j k r1 r2)
  have 1: "same_frame (rooms ! i) r1" "same_frame (rooms ! i2) r2"
    using set_adjacency_frame(1)[where ?r1.0 = "rooms ! i" and W = W and ?r2.0 = "rooms ! i2"
        and j = j and k = k and rwc = True]
      set_adjacency_frame(2)[where ?r1.0 = "rooms ! i" and W = W and ?r2.0 = "rooms ! i2"
        and j = j and k = k and rwc = True] step by simp_all
  show ?thesis
    unfolding step
    using 1 step(3,4)
    by (auto simp: list_all2_conv_all_nth nth_list_update)
qed

lemma same_frame_sym_len:
  "list_all2 same_frame a b \<Longrightarrow> length b = length a"
  by (simp add: list_all2_lengthD)

lemma adj_steps_frame:
  assumes "adj_steps W s s'"
  shows "list_all2 same_frame (fst s) (fst s')"
  using assms unfolding adj_steps_def
proof (induction rule: rtranclp_induct)
  case base
  show ?case by (simp add: list_all2_conv_all_nth)
next
  case (step y z)
  from adj_step_frame[of W "fst y" "snd y" "fst z" "snd z"] step.hyps(2)
  have "list_all2 same_frame (fst y) (fst z)" by simp
  with step.IH show ?case
    by (rule list_all2_trans[rotated 1]) (rule same_frame_trans)
qed

lemma frame_valid:
  assumes "list_all2 same_frame rooms rooms'" "list_all arrays_consistent rooms"
  shows "list_all arrays_consistent rooms'"
proof -
  have "arrays_consistent (rooms' ! n)" if "n < length rooms'" for n
  proof -
    from assms(1) that have "same_frame (rooms ! n) (rooms' ! n)" "n < length rooms"
      by (simp_all add: list_all2_conv_all_nth)
    moreover from assms(2) this(2) have "arrays_consistent (rooms ! n)"
      by (simp add: list_all_length)
    ultimately show ?thesis by (blast intro: same_frame_consistent)
  qed
  then show ?thesis by (simp add: list_all_length)
qed

lemma frame_segments:
  assumes "list_all2 same_frame rooms rooms'" "n < length rooms"
  shows "floor_segments (rooms' ! n) = floor_segments (rooms ! n)"
    "floor_segments_2d (rooms' ! n) = floor_segments_2d (rooms ! n)"
    "ident (rooms' ! n) = ident (rooms ! n)"
    "boundary_polygon2d (rooms' ! n) = boundary_polygon2d (rooms ! n)"
  using assms
  by (auto simp: list_all2_conv_all_nth same_frame_def floor_segments_def floor_segments_2d_def
      boundary_polygon2d_def)


lemma valid_nth:
  "list_all arrays_consistent rooms \<Longrightarrow> n < length rooms \<Longrightarrow> arrays_consistent (rooms ! n)"
  by (simp add: list_all_length)

lemma seg_2_loop_steps:
  assumes "list_all arrays_consistent rooms" "i < i2" "i2 < length rooms"
    and "j < length (floor_segments (rooms ! i))"
    and "\<forall>p \<in> set ks. fst p < length (floor_segments (rooms ! i2))"
    and "seg_2_loop G W tol True i i2 j seg_1 ks (rooms, adj) = (e, st')"
  shows "adj_steps W (rooms, adj) st'"
  using assms(5,6)
proof (induction ks)
  case Nil
  then show ?case by simp
next
  case (Cons p ks)
  obtain k seg_2 where p: "p = (k, seg_2)" by (cases p)
  have c1: "arrays_consistent (rooms ! i)" and c2: "arrays_consistent (rooms ! i2)"
    using assms(1-3) by (auto intro: valid_nth)
  have k: "k < length (floor_segments (rooms ! i2))" using Cons.prems(1) p by simp
  have rj: "segment_in_range (rooms ! i) j" using c1 assms(4) by (simp add: segment_in_range_consistent)
  have rk: "segment_in_range (rooms ! i2) k" using c2 k by (simp add: segment_in_range_consistent)
  have kb: "k < length (boundary_conditions (rooms ! i2))" using rk by (simp add: segment_in_range_def)
  have rest: "\<forall>p \<in> set ks. fst p < length (floor_segments (rooms ! i2))"
    using Cons.prems(1) by simp
  show ?case
  proof (cases "is_Surface (boundary_conditions (rooms ! i2) ! k)")
    case True
    with Cons.prems(2) kb have "seg_2_loop G W tol True i i2 j seg_1 ks (rooms, adj) = (e, st')"
      by (simp add: p)
    with rest show ?thesis by (rule Cons.IH)
  next
    case False
    show ?thesis
    proof (cases "segments_match G tol seg_1 seg_2")
      case (Inl err)
      with Cons.prems(2) kb False have "st' = (rooms, adj)" by (simp add: p)
      then show ?thesis by simp
    next
      case (Inr m)
      show ?thesis
      proof (cases m)
        case False
        with Cons.prems(2) kb \<open>\<not> is_Surface (boundary_conditions (rooms ! i2) ! k)\<close> Inr
        have "seg_2_loop G W tol True i i2 j seg_1 ks (rooms, adj) = (e, st')"
          by (simp add: p)
        with rest show ?thesis by (rule Cons.IH)
      next
        case True
        obtain e1 r1 r2 where sa: "set_adjacency W (rooms ! i) (rooms ! i2) j k True = (e1, r1, r2)"
          by (cases "set_adjacency W (rooms ! i) (rooms ! i2) j k True")
        with set_adjacency_True(1)[OF rj rk, of W] have e1: "e1 = None" by simp
        from Cons.prems(2) kb \<open>\<not> is_Surface (boundary_conditions (rooms ! i2) ! k)\<close> Inr True sa e1
        have "st' = (rooms[i := r1, i2 := r2], adj @ [((i, j), (i2, k))])"
          by (simp add: p)
        moreover have "adj_step W (rooms, adj) (rooms[i := r1, i2 := r2], adj @ [((i, j), (i2, k))])"
          using assms(2,3) rj rk \<open>\<not> is_Surface (boundary_conditions (rooms ! i2) ! k)\<close> sa e1
          by (intro adj_step.step) simp_all
        ultimately show ?thesis by (simp add: adj_steps_step)
      qed
    qed
  qed
qed


lemma length_floor_segments_2d [simp]:
  "length (floor_segments_2d r) = length (floor_segments r)"
  by (simp add: floor_segments_2d_def)

lemma enumerate_fst_bound:
  "\<forall>p \<in> set (enumerate 0 xs). fst p < length xs"
  by (auto simp: in_set_enumerate_eq)

lemma steps_facts:
  assumes "adj_steps W (rooms, adj) st'" "list_all arrays_consistent rooms"
  shows "list_all arrays_consistent (fst st')" "length (fst st') = length rooms"
    "\<And>n. n < length rooms \<Longrightarrow> floor_segments (fst st' ! n) = floor_segments (rooms ! n)"
    "\<And>n. n < length rooms \<Longrightarrow> floor_segments_2d (fst st' ! n) = floor_segments_2d (rooms ! n)"
    "\<And>n. n < length rooms \<Longrightarrow> boundary_polygon2d (fst st' ! n) = boundary_polygon2d (rooms ! n)"
    "\<And>n. n < length rooms \<Longrightarrow> ident (fst st' ! n) = ident (rooms ! n)"
proof -
  from adj_steps_frame[OF assms(1)] have f: "list_all2 same_frame rooms (fst st')" by simp
  show "list_all arrays_consistent (fst st')" using f assms(2) by (rule frame_valid)
  show "length (fst st') = length rooms" using f by (simp add: list_all2_lengthD)
  show "floor_segments (fst st' ! n) = floor_segments (rooms ! n)" if "n < length rooms" for n
    using f that by (rule frame_segments)
  show "floor_segments_2d (fst st' ! n) = floor_segments_2d (rooms ! n)" if "n < length rooms" for n
    using f that by (rule frame_segments)
  show "boundary_polygon2d (fst st' ! n) = boundary_polygon2d (rooms ! n)" if "n < length rooms" for n
    using f that by (rule frame_segments)
  show "ident (fst st' ! n) = ident (rooms ! n)" if "n < length rooms" for n
    using f that by (rule frame_segments)
qed

lemma seg_1_loop_steps:
  assumes "list_all arrays_consistent rooms" "i < i2" "i2 < length rooms"
    and "\<forall>p \<in> set js. fst p < length (floor_segments (rooms ! i))"
    and "seg_1_loop G W tol True i i2 js (rooms, adj) = (e, st')"
  shows "adj_steps W (rooms, adj) st'"
  using assms(1,3,4,5)
proof (induction js arbitrary: rooms adj)
  case Nil
  then show ?case by simp
next
  case (Cons p js)
  obtain j seg_1 where p: "p = (j, seg_1)" by (cases p)
  obtain e1 rooms1 adj1 where
    s2: "seg_2_loop G W tol True i i2 j seg_1 (enumerate 0 (floor_segments_2d (rooms ! i2)))
           (rooms, adj) = (e1, rooms1, adj1)"
    by (metis prod_cases3)
  have j: "j < length (floor_segments (rooms ! i))" using Cons.prems(3) p by simp
  have st1: "adj_steps W (rooms, adj) (rooms1, adj1)"
    using Cons.prems(1) assms(2) Cons.prems(2) j _ s2
    by (rule seg_2_loop_steps) (simp add: in_set_enumerate_eq)
  show ?case
  proof (cases "e1 = None")
    case False
    with Cons.prems(4) s2 have "st' = (rooms1, adj1)" by (simp add: p)
    with st1 show ?thesis by simp
  next
    case True
    with Cons.prems(4) s2 have l: "seg_1_loop G W tol True i i2 js (rooms1, adj1) = (e, st')"
      by (simp add: p)
    note F = steps_facts[OF st1 Cons.prems(1)]
    have i: "i < length rooms" using assms(2) Cons.prems(2) by simp
    have "adj_steps W (rooms1, adj1) st'"
    proof (rule Cons.IH[OF _ _ _ l])
      show "list_all arrays_consistent rooms1" using F(1) by simp
      show "i2 < length rooms1" using F(2) Cons.prems(2) by simp
      show "\<forall>p\<in>set js. fst p < length (floor_segments (rooms1 ! i))"
        using Cons.prems(3) F(3)[OF i] by simp
    qed
    with st1 show ?thesis by (rule adj_steps_trans)
  qed
qed

lemma room_2_loop_steps:
  assumes "list_all arrays_consistent rooms"
    and "\<forall>i2 \<in> set is. i < i2 \<and> i2 < length rooms"
    and "room_2_loop G W tol True i is (rooms, adj) = (e, st')"
  shows "adj_steps W (rooms, adj) st'"
  using assms
proof (induction "is" arbitrary: rooms adj)
  case Nil
  then show ?case by simp
next
  case (Cons i2 "is")
  have i2: "i < i2" "i2 < length rooms" using Cons.prems(2) by simp_all
  show ?case
  proof (cases "overlapping_bounding_rect G (boundary_polygon2d (rooms ! i))
                  (boundary_polygon2d (rooms ! i2)) tol")
    case False
    with Cons.prems(3) have "room_2_loop G W tol True i is (rooms, adj) = (e, st')"
      by (simp add: Let_def)
    with Cons.prems(1,2) show ?thesis by (intro Cons.IH) simp_all
  next
    case True
    obtain e1 rooms1 adj1 where
      s1: "seg_1_loop G W tol True i i2 (enumerate 0 (floor_segments_2d (rooms ! i))) (rooms, adj)
             = (e1, rooms1, adj1)"
      by (metis prod_cases3)
    have st1: "adj_steps W (rooms, adj) (rooms1, adj1)"
      using Cons.prems(1) i2 _ s1
      by (rule seg_1_loop_steps) (simp add: in_set_enumerate_eq)
    show ?thesis
    proof (cases "e1 = None")
      case False
      with Cons.prems(3) True s1 have "st' = (rooms1, adj1)" by (simp add: Let_def)
      with st1 show ?thesis by simp
    next
      case e1: True
      with Cons.prems(3) True s1 have l: "room_2_loop G W tol True i is (rooms1, adj1) = (e, st')"
        by (simp add: Let_def)
      note F = steps_facts[OF st1 Cons.prems(1)]
      have "adj_steps W (rooms1, adj1) st'"
      proof (rule Cons.IH[OF _ _ l])
        show "list_all arrays_consistent rooms1" using F(1) by simp
        show "\<forall>i2\<in>set is. i < i2 \<and> i2 < length rooms1"
          using Cons.prems(2) F(2) by simp
      qed
      with st1 show ?thesis by (rule adj_steps_trans)
    qed
  qed
qed

lemma room_1_loop_steps:
  assumes "list_all arrays_consistent rooms"
    and "room_1_loop G W tol True is (rooms, adj) = (e, st')"
  shows "adj_steps W (rooms, adj) st'"
  using assms
proof (induction "is" arbitrary: rooms adj)
  case Nil
  then show ?case by simp
next
  case (Cons i "is")
  obtain e1 rooms1 adj1 where
    r2: "room_2_loop G W tol True i [Suc i ..< length rooms] (rooms, adj) = (e1, rooms1, adj1)"
    by (metis prod_cases3)
  have st1: "adj_steps W (rooms, adj) (rooms1, adj1)"
    using Cons.prems(1) _ r2 by (rule room_2_loop_steps) simp
  show ?case
  proof (cases "e1 = None \<or> e1 = Some IndexError")
    case False
    with Cons.prems(2) r2 have "st' = (rooms1, adj1)" by simp
    with st1 show ?thesis by simp
  next
    case True
    with Cons.prems(2) r2 have l: "room_1_loop G W tol True is (rooms1, adj1) = (e, st')"
      by auto
    note F = steps_facts[OF st1 Cons.prems(1)]
    have "adj_steps W (rooms1, adj1) st'"
      using F(1) l by (intro Cons.IH) simp_all
    with st1 show ?thesis by (rule adj_steps_trans)
  qed
qed


lemma ends_append [simp]: "ends (xs @ ys) = ends xs @ ends ys"
  by (simp add: ends_def)

lemma ends_single [simp]: "ends [(x, y)] = [x, y]"
  by (simp add: ends_def)

lemma in_ends: "p \<in> set adj \<Longrightarrow> fst p \<in> set (ends adj) \<and> snd p \<in> set (ends adj)"
  by (induction adj) (auto simp: ends_def)

lemma count_list_pos: "x \<in> set xs \<Longrightarrow> 0 < count_list xs x"
  by (induction xs) auto

lemma step_bc:
  assumes "adj_step W (rooms, adj) (rooms', adj')"
  obtains i i2 j k where
    "adj' = adj @ [((i, j), (i2, k))]" "i < i2" "i2 < length rooms"
    "j < length (boundary_conditions (rooms ! i))" "k < length (boundary_conditions (rooms ! i2))"
    "\<not> is_Surface (boundary_conditions (rooms ! i2) ! k)"
    "length rooms' = length rooms"
    "\<And>a. a < length rooms \<Longrightarrow> ident (rooms' ! a) = ident (rooms ! a)"
    "\<And>a. a < length rooms \<Longrightarrow>
        length (boundary_conditions (rooms' ! a)) = length (boundary_conditions (rooms ! a))"
    "\<And>a x. a < length rooms \<Longrightarrow>
        boundary_conditions (rooms' ! a) ! x =
          (if (a, x) = (i, j) then surface_to (rooms ! i2) k
           else if (a, x) = (i2, k) then surface_to (rooms ! i) j
           else boundary_conditions (rooms ! a) ! x)"
  using assms
proof cases
  case (step i i2 j k r1 r2)
  note B = set_adjacency_True[OF step(5,6), of W]
  have b1: "boundary_conditions r1 = (boundary_conditions (rooms ! i))[j := surface_to (rooms ! i2) k]"
    and b2: "boundary_conditions r2 = (boundary_conditions (rooms ! i2))[k := surface_to (rooms ! i) j]"
    using B(2,3) step(8) by simp_all
  have f: "list_all2 same_frame rooms rooms'" using assms by (rule adj_step_frame)
  have jl: "j < length (boundary_conditions (rooms ! i))"
    and kl: "k < length (boundary_conditions (rooms ! i2))"
    using step(5,6) by (simp_all add: segment_in_range_def)
  show ?thesis
  proof (rule that[of i j i2 k])
    show "adj' = adj @ [((i, j), (i2, k))]" by (rule step(2))
    show "i < i2" "i2 < length rooms" by (rule step(3), rule step(4))
    show "j < length (boundary_conditions (rooms ! i))" by (rule jl)
    show "k < length (boundary_conditions (rooms ! i2))" by (rule kl)
    show "\<not> is_Surface (boundary_conditions (rooms ! i2) ! k)" by (rule step(7))
    show "length rooms' = length rooms" using f by (simp add: list_all2_lengthD)
    show "ident (rooms' ! a) = ident (rooms ! a)" if "a < length rooms" for a
      using f that by (rule frame_segments)
    show "length (boundary_conditions (rooms' ! a)) = length (boundary_conditions (rooms ! a))"
      if "a < length rooms" for a
      using f that by (simp add: list_all2_conv_all_nth same_frame_def)
    show "boundary_conditions (rooms' ! a) ! x =
          (if (a, x) = (i, j) then surface_to (rooms ! i2) k
           else if (a, x) = (i2, k) then surface_to (rooms ! i) j
           else boundary_conditions (rooms ! a) ! x)" if "a < length rooms" for a x
    proof -
      have r1: "rooms' ! i = r1" using step(3,4) by (simp add: step(1) nth_list_update)
      have r2: "rooms' ! i2 = r2" using step(3,4) by (simp add: step(1))
      have ro: "rooms' ! a = rooms ! a" if "a \<noteq> i" "a \<noteq> i2"
        using that by (simp add: step(1))
      consider "a = i" | "a = i2" | "a \<noteq> i" "a \<noteq> i2" by blast
      then show ?thesis
      proof cases
        case 1
        then show ?thesis using step(3) jl by (simp add: r1 b1 nth_list_update)
      next
        case 2
        then show ?thesis using step(3) kl by (simp add: r2 b2 nth_list_update)
      next
        case 3
        then show ?thesis by (simp add: ro)
      qed
    qed
  qed
qed


lemma adj_step_links:
  assumes st: "adj_step W (rooms, adj) (rooms', adj')"
    and IH: "\<forall>p\<in>set adj. matched_once adj p \<longrightarrow> linked rooms p"
  shows "\<forall>p\<in>set adj'. matched_once adj' p \<longrightarrow> linked rooms' p"
proof (intro ballI impI)
  fix p assume p: "p \<in> set adj'" and m: "matched_once adj' p"
  from st obtain i i2 j k where
    adj': "adj' = adj @ [((i, j), (i2, k))]" and ii: "i < i2" "i2 < length rooms"
    and jl: "j < length (boundary_conditions (rooms ! i))"
    and kl: "k < length (boundary_conditions (rooms ! i2))"
    and len: "length rooms' = length rooms"
    and idt: "\<And>a. a < length rooms \<Longrightarrow> ident (rooms' ! a) = ident (rooms ! a)"
    and bl: "\<And>a. a < length rooms \<Longrightarrow>
        length (boundary_conditions (rooms' ! a)) = length (boundary_conditions (rooms ! a))"
    and bc: "\<And>a x. a < length rooms \<Longrightarrow>
        boundary_conditions (rooms' ! a) ! x =
          (if (a, x) = (i, j) then surface_to (rooms ! i2) k
           else if (a, x) = (i2, k) then surface_to (rooms ! i) j
           else boundary_conditions (rooms ! a) ! x)"
    by (rule step_bc) blast
  have sf: "surface_to (rooms' ! a) x = surface_to (rooms ! a) x" if "a < length rooms" for a x
    using idt[OF that] by (simp add: surface_to_def face_id_def)
  have il: "i < length rooms" using ii by simp
  show "linked rooms' p"
  proof (cases "p = ((i, j), (i2, k))")
    case True
    have "boundary_conditions (rooms' ! i) ! j = surface_to (rooms' ! i2) k"
      using bc[OF il, of j] sf[OF ii(2)] by simp
    moreover have "boundary_conditions (rooms' ! i2) ! k = surface_to (rooms' ! i) j"
      using bc[OF ii(2), of k] sf[OF il] ii(1) by simp
    ultimately show ?thesis
      using True il ii jl kl len bl by (simp add: linked_def)
  next
    case False
    with p adj' have pin: "p \<in> set adj" by simp
    obtain a x b y where pp: "p = ((a, x), (b, y))" by (metis prod.collapse)
    from in_ends[OF pin] have c: "0 < count_list (ends adj) (a, x)" "0 < count_list (ends adj) (b, y)"
      by (simp_all add: pp count_list_pos)
    from m have c2: "count_list (ends adj) (a, x) + count_list [(i, j), (i2, k)] (a, x) = 1"
      "count_list (ends adj) (b, y) + count_list [(i, j), (i2, k)] (b, y) = 1"
      by (simp_all add: matched_once_def adj' pp)
    from c c2 have ne: "(a, x) \<noteq> (i, j)" "(a, x) \<noteq> (i2, k)" "(b, y) \<noteq> (i, j)" "(b, y) \<noteq> (i2, k)"
      by (auto split: if_splits)
    from c c2 have "matched_once adj p"
      by (auto simp: matched_once_def pp split: if_splits)
    with IH pin have l: "linked rooms p" by blast
    then have ab: "a < length rooms" "b < length rooms" by (simp_all add: linked_def pp)
    have ba: "boundary_conditions (rooms' ! a) ! x = boundary_conditions (rooms ! a) ! x"
      using bc[OF ab(1), of x] ne(1,2) by (auto split: if_splits)
    have bb: "boundary_conditions (rooms' ! b) ! y = boundary_conditions (rooms ! b) ! y"
      using bc[OF ab(2), of y] ne(3,4) by (auto split: if_splits)
    from l show ?thesis
      unfolding linked_def pp
      by (simp add: ba bb sf[OF ab(1)] sf[OF ab(2)] bl[OF ab(1)] bl[OF ab(2)] len)
  qed
qed

lemma adj_steps_links:
  assumes "adj_steps W s s'"
    and "\<forall>p\<in>set (snd s). matched_once (snd s) p \<longrightarrow> linked (fst s) p"
  shows "\<forall>p\<in>set (snd s'). matched_once (snd s') p \<longrightarrow> linked (fst s') p"
  using assms unfolding adj_steps_def
proof (induction rule: rtranclp_induct)
  case base
  then show ?case by simp
next
  case (step y z)
  from step.hyps(2) have "adj_step W (fst y, snd y) (fst z, snd z)" by simp
  then show ?case using step.IH[OF step.prems] by (rule adj_step_links)
qed

lemma remove_all_duplicate_vertices_valid:
  "list_all arrays_consistent rooms \<Longrightarrow>
     list_all arrays_consistent (snd (remove_all_duplicate_vertices G tol rooms))"
proof (induction rooms)
  case Nil
  then show ?case by simp
next
  case (Cons r rooms)
  obtain res r1 where r: "remove_duplicate_vertices G tol r = (res, r1)"
    by (cases "remove_duplicate_vertices G tol r")
  obtain e rs where rs: "remove_all_duplicate_vertices G tol rooms = (e, rs)"
    by (cases "remove_all_duplicate_vertices G tol rooms")
  have "arrays_consistent r1"
    using remove_duplicate_vertices_consistent[of r G tol] Cons.prems r by simp
  moreover have "list_all arrays_consistent rs" using Cons rs by simp
  moreover have "list_all arrays_consistent rooms" using Cons.prems by simp
  ultimately show ?case
    by (simp add: r rs)
qed


text \<open>Comparing a distance with a tolerance without computing the square root.\<close>

lemma sqrt_le_iff_sq: "0 \<le> t \<Longrightarrow> (sqrt x \<le> t) = (x \<le> t\<^sup>2)"
  by (metis real_sqrt_le_iff real_sqrt_abs abs_of_nonneg)

lemma sqrt_mult_le_iff: "0 < c \<Longrightarrow> 0 \<le> d \<Longrightarrow> (sqrt x * c \<le> d) = (x * (c * c) \<le> d * d)"
proof -
  assume c: "0 < c" and d: "0 \<le> d"
  have "(sqrt x * c \<le> d) = (sqrt x \<le> d / c)"
    using c by (simp add: pos_le_divide_eq)
  also have "\<dots> = (x \<le> (d / c)\<^sup>2)"
    using c d by (intro sqrt_le_iff_sq) simp
  also have "\<dots> = (x * (c * c) \<le> d * d)"
    using c by (simp add: power2_eq_square pos_le_divide_eq)
  finally show ?thesis .
qed

lemmas adjacency_eval = room_eval boundary_polygon2d_def floor_segments_2d_def to_2d_def
  ladybug_def ladybug_overlapping_bounding_rect_def ladybug_distance_to_point_def
  closest_point2d_on_line2d_def set_adjacency_def surface_to_def face_id_def
  string_of_nat.simps Let_def segments_match_def upt_rec enumerate_eq_zip sqrt_mult_le_iff
  solve_adjacency_def dedupe_eval




lemma three_rooms_solved:
  "solve_adjacency ladybug windows three_rooms (1/100) True
     = (Inr [((0, 0), (1, 2)), ((0, 0), (2, 2)), ((1, 1), (2, 3))], three_rooms_solved_value)"
  by (simp add: three_rooms_def three_rooms_solved_value_def long_a_def south_west_def south_east_def
      adjacency_eval)

text \<open>
  Claim C1 says that after \<^verbatim>\<open>solve_adjacency\<close> every Surface boundary condition it made
  is answered by the segment it names. With a room of 10 by 5 and two rooms of 5 by 5 along
  its southern wall, segment 0 of the first room is matched with segment 2 of the second
  room and then again with segment 2 of the third: segment 2 of room B names face 1 of room
  A, while segment 0 of room A names face 3 of room C.
\<close>

theorem solve_adjacency_symmetry_counterexample:
  "fst (solve_adjacency ladybug windows three_rooms (1/100) True)
     = Inr [((0, 0), (1, 2)), ((0, 0), (2, 2)), ((1, 1), (2, 3))] \<and>
   map boundary_conditions (snd (solve_adjacency ladybug windows three_rooms (1/100) True))
     = [[Surface ''C..Face3'' ''C'', Outdoors, Outdoors, Outdoors],
        [Outdoors, Surface ''C..Face4'' ''C'', Surface ''A..Face1'' ''A'', Outdoors],
        [Outdoors, Outdoors, Surface ''A..Face1'' ''A'', Surface ''B..Face2'' ''B'']]"
  by (simp add: three_rooms_solved) (simp add: three_rooms_solved_value_def)

text \<open>
  Claim C1, amended: for rooms with consistent per-segment arrays, when
  \<^verbatim>\<open>solve_adjacency\<close> (with conflict resolution, its default) returns, every adjacency
  pair it returns whose two segments occur in no other returned pair is linked both ways:
  each of the two segments carries the Surface boundary condition naming the other segment
  and its room.
\<close>

theorem solve_adjacency_links_matched_pairs:
  assumes "list_all arrays_consistent room_2ds"
    and "solve_adjacency G W room_2ds tolerance True = (Inr adj_info, rooms)"
    and "p \<in> set adj_info" and "matched_once adj_info p"
  shows "linked rooms p"
proof -
  obtain e0 rooms0 where d: "remove_all_duplicate_vertices G tolerance room_2ds = (e0, rooms0)"
    by (cases "remove_all_duplicate_vertices G tolerance room_2ds")
  have v0: "list_all arrays_consistent rooms0"
    using remove_all_duplicate_vertices_valid[OF assms(1), of G tolerance] d by simp
  from assms(2) d have e0: "e0 = None"
    by (cases e0) (simp_all add: solve_adjacency_def)
  obtain e1 st1 where l: "room_1_loop G W tolerance True [0 ..< length rooms0] (rooms0, []) = (e1, st1)"
    by (cases "room_1_loop G W tolerance True [0 ..< length rooms0] (rooms0, [])")
  from assms(2) d e0 l have st1: "st1 = (rooms, adj_info)"
    by (cases e1; cases st1) (simp_all add: solve_adjacency_def)
  from room_1_loop_steps[OF v0 l] have "adj_steps W (rooms0, []) (rooms, adj_info)"
    by (simp add: st1)
  from adj_steps_links[OF this] assms(3,4) show ?thesis by simp
qed

theorem solve_adjacency_links_matched_pairs_witness:
  "list_all arrays_consistent three_rooms \<and>
   solve_adjacency ladybug windows three_rooms (1/100) True
     = (Inr [((0, 0), (1, 2)), ((0, 0), (2, 2)), ((1, 1), (2, 3))], three_rooms_solved_value) \<and>
   matched_once [((0, 0), (1, 2)), ((0, 0), (2, 2)), ((1, 1), (2, 3))] ((1, 1), (2, 3)) \<and>
   linked three_rooms_solved_value ((1, 1), (2, 3))"
proof -
  have v: "list_all arrays_consistent three_rooms"
    by (simp add: three_rooms_def arrays_consistent_def get_air_boundaries_def len_def
        long_a_def south_west_def south_east_def room_eval)
  have m: "matched_once [((0, 0), (1, 2)), ((0, 0), (2, 2)), ((1, 1), (2, 3))] ((1, 1), (2, 3))"
    by (simp add: matched_once_def ends_def)
  have "linked three_rooms_solved_value ((1, 1), (2, 3))"
    using solve_adjacency_links_matched_pairs[OF v three_rooms_solved _ m] by simp
  with v m three_rooms_solved show ?thesis by simp
qed

section \<open>A second run of the adjacency solving\<close>

subsection \<open>Rooms without duplicate vertices are left as they are\<close>

lemma map_fst_ring_segments [simp]: "map fst (ring_segments ps) = ps"
  by (simp add: ring_segments_def)








subsection \<open>A resolved list of rooms is left as it is\<close>





subsection \<open>A run settles every segment\<close>





lemma is_Surface_surface_to [simp]: "is_Surface (surface_to r k)"
  by (simp add: surface_to_def)




















section \<open>The room volume under a roof\<close>






subsection \<open>The example rooms under the example roofs\<close>

lemma rectangles_sel:
  "polygon_relationship rectangles = rect_polygon_relationship"
  "point_relationship rectangles = rect_point_relationship"
  "from_faces rectangles = polyface_from_faces"
  "from_offset_face rectangles = (\<lambda>f h. polyface_from_faces (offset_faces f h) 0)"
  "is_solid rectangles = polyface_is_solid"
  "naked_edges rectangles = polyface_naked_edges"
  "merge_overlapping_edges rectangles = (\<lambda>pf tol ang_tol. pf)"
  "separate_disconnected_faces rectangles = (\<lambda>n pf roof_face_i tol. (pf, roof_face_i, None))"
  "patch_vertical_gaps rectangles = (\<lambda>pf roof_face_i tol. (pf, roof_face_i))"
  "cap_planar_holes rectangles = (\<lambda>pf roof_face_i tol. (pf, roof_face_i))"
  "remove_colinear_vertices rectangles = (\<lambda>poly tol. if length poly < 3 then None else Some poly)"
  "face_remove_colinear_vertices rectangles
     = (\<lambda>rf tol. if length (hd (fst rf)) < 3 then None else Some rf)"
  "coplanar_difference rectangles = (\<lambda>f faces tol ang_tol. [f])"
  "face_area rectangles = flat_area"
  by (simp_all add: rectangles_def)

lemmas volume_eval = room_volume_with_roof_def general_faces_def roof_faces_def full_bound_faces_def
  floor_flipped_def project_point_def rectangles_sel rect_polygon_relationship_def
  rect_point_relationship_def in_bounds_def ladybug_overlapping_bounding_rect_def
  polyface_from_faces_def to_2d_def has_holes_def len_def repair_def merge_if_open_def
  polygon_area_def polygon_signed_area_def seg_length2_def flat_area_def at_height_def
  ceiling_height_def floor_height_def pz_def List.map_filter_def ladybug_is_equivalent_def
  plain_room_def unit_square_def two_by_one_def attic_def loft_def cover_def
  floor_segments_def boundary_segments_def hole_segments_def ring_segments_def Let_def

lemmas solid_eval = polyface_is_solid_def polyface_naked_edges_def polyface_edges_def edge_uses_def
  ring_segments_def Let_def

lemma attic_facts:
  "floor_geometry attic = unit_square" "floor_to_ceiling_height attic = 3" "len attic = 4"
  "segment_count attic = 4"
  by (simp_all add: attic_def plain_room_def len_def unit_square_def)












text \<open>
  No roof polygon is relevant to the attic under the far roof. The ceiling is added as the
  one roof face, the walls are projected onto it, and the polyface is the extrusion of the
  floor plate.
\<close>

lemma attic_far_relevant:
  "relevant_roofs rectangles (map to_2d (boundary (floor_geometry attic))) (1/100) far_roof []
     = ([], False)"
  by (simp add: volume_eval far_roof_def)

lemma attic_far_roof_faces:
  "roof_faces rectangles attic [[(0, 0), (1, 0), (1, 1), (0, 1)]] [] (1/100)
     = Some [([[(0, 0, 3), (1, 0, 3), (1, 1, 3), (0, 1, 3)]], (0, 0, 3))]"
  by (simp add: volume_eval)

lemma attic_far_faces:
  "general_faces rectangles attic [] (1/100) = Some (offset_faces unit_square 3, 1)"
  unfolding general_faces_def
  by (simp add: attic_facts unit_square_def has_holes_def to_2d_def Let_def attic_far_roof_faces
      rectangles_sel rect_point_relationship_def in_bounds_def
      floor_segments_def boundary_segments_def hole_segments_def ring_segments_def
      floor_flipped_def offset_faces_def project_point_def)

lemma box_polyface:
  assumes "0 \<le> tol" "tol < 1"
  shows "polyface_from_faces (offset_faces unit_square 3) tol =
     \<lparr>vertices = [(0, 1, 0), (1, 1, 0), (1, 0, 0), (0, 0, 0), (1, 0, 3), (0, 0, 3), (1, 1, 3),
                  (0, 1, 3)],
      face_indices = [[[0, 1, 2, 3]], [[3, 2, 4, 5]], [[2, 1, 6, 4]], [[1, 0, 7, 6]],
                      [[0, 3, 5, 7]], [[5, 4, 6, 7]]]\<rparr>"
  using assms
  by (simp add: polyface_from_faces_def offset_faces_def unit_square_def ladybug_is_equivalent_def
      boundary_segments_def hole_segments_def ring_segments_def)

lemma attic_far_volume:
  "room_volume_with_roof rectangles attic far_roof (1/100)
     = Some (extrusion rectangles attic, [- 1], None)"
  unfolding room_volume_with_roof_def attic_far_relevant
  apply (simp add: attic_far_faces repair_def merge_if_open_def extrusion_def)
  apply (simp add: rectangles_sel box_polyface solid_eval)
  apply (simp add: attic_facts box_polyface)
  done

lemma attic_extrusion_solid: "polyface_is_solid (extrusion rectangles attic)"
  by (simp add: extrusion_def rectangles_sel attic_facts box_polyface solid_eval)

subsection \<open>Solidity of the volume\<close>




subsection \<open>The room fully bounded by one roof polygon\<close>




subsection \<open>The room that no roof polygon overlaps\<close>

text \<open>
  Claim C7 says that the builder returns None for a room and a roof specification whose
  polygons do not overlap the floor polygon of the room, as the docstring of the method
  has it. For the attic and the far roof the builder runs the general case with no
  relevant roof polygon, covers the room with its own ceiling and returns the extrusion
  of the floor plate as the volume under the roof, with the ceiling as the one roof face;
  the caller takes it as a volume with a roof.
\<close>

theorem disjoint_roof_flat_volume:
  "polygon_relationship rectangles (fst (hd far_roof))
     (map to_2d (boundary (floor_geometry attic))) (1/100) = - 1 \<and>
   room_volume_with_roof rectangles attic far_roof (1/100)
     = Some (extrusion rectangles attic, [- 1], None) \<and>
   is_solid rectangles (extrusion rectangles attic) \<and>
   roof_or_extrusion rectangles attic far_roof (1/100) True
     = (True, extrusion rectangles attic, [- 1])"
proof -
  have "polygon_relationship rectangles (fst (hd far_roof))
     (map to_2d (boundary (floor_geometry attic))) (1/100) = - 1"
    by (simp add: volume_eval far_roof_def)
  moreover have "is_solid rectangles (extrusion rectangles attic)"
    by (simp add: rectangles_sel attic_extrusion_solid)
  ultimately show ?thesis
    by (simp add: roof_or_extrusion_def attic_far_volume)
qed

end
